theory Spec2Isabelle
  imports Main
begin

section \<open>JavaScript string and container primitives used by the tracer\<close>

text \<open>
  Strings are character lists.  \<open>startsWith\<close> and \<open>str_includes\<close> are
  \<^verbatim>\<open>String.prototype.startsWith\<close> and \<^verbatim>\<open>String.prototype.includes\<close>.
\<close>

definition startsWith :: "string \<Rightarrow> string \<Rightarrow> bool" where
  "startsWith s p = (take (length p) s = p)"

fun str_includes :: "string \<Rightarrow> string \<Rightarrow> bool" where
  "str_includes [] sub = (sub = [])"
| "str_includes (c # cs) sub = (startsWith (c # cs) sub \<or> str_includes cs sub)"

section \<open>tracer/mutation-level.ts: the significance level of one DOM change\<close>

text \<open>
  \<^verbatim>\<open>RawDomChange\<close> of types.ts.  A field that is \<^verbatim>\<open>string | null\<close> is a
  \<open>string option\<close>.  \<^verbatim>\<open>MutationLevel = 1 | 2 | 3\<close> is a natural number.
\<close>

record RawDomChange =
  mutationType :: string
  targetPath :: string
  addedNodes :: "string list"
  removedNodes :: "string list"
  attributeName :: "string option"
  attributeValue :: "string option"
  oldValue :: "string option"
  characterData :: "string option"

definition VISIBLE_ATTRS :: "string list" where
  "VISIBLE_ATTRS =
    [''class'', ''style'', ''hidden'', ''disabled'', ''value'', ''checked'',
     ''selected'', ''open'', ''src'', ''href'', ''alt'', ''title'',
     ''aria-expanded'', ''aria-selected'', ''aria-checked'', ''aria-hidden'',
     ''aria-label'', ''aria-disabled'', ''aria-current'']"

definition RESOURCE_NODES :: "string list" where
  "RESOURCE_NODES = [''SCRIPT'', ''LINK'', ''META'', ''STYLE'', ''NOSCRIPT'']"

definition isInHead :: "string \<Rightarrow> bool" where
  "isInHead path = (str_includes path ''/head['' \<or> path = [])"

definition isNoiseNode :: "string \<Rightarrow> bool" where
  "isNoiseNode n = (n \<in> set RESOURCE_NODES \<or> n = ''#comment'')"

definition isNoiseNodes :: "string list \<Rightarrow> bool" where
  "isNoiseNodes nodes = (length nodes > 0 \<and> list_all isNoiseNode nodes)"

definition isTextOnlyNodes :: "string list \<Rightarrow> bool" where
  "isTextOnlyNodes nodes = (length nodes > 0 \<and> list_all (\<lambda>n. n = ''#text'') nodes)"

definition computeChangeLevel :: "RawDomChange \<Rightarrow> nat" where
  "computeChangeLevel raw =
    (if isInHead (targetPath raw) then 1
     else
       let allNodes = addedNodes raw @ removedNodes raw in
       if mutationType raw = ''childList'' \<and> length allNodes > 0 \<and> isNoiseNodes allNodes
       then 1
       else if mutationType raw = ''attributes'' \<and>
               (case attributeName raw of
                  None \<Rightarrow> False
                | Some a \<Rightarrow> a \<in> set VISIBLE_ATTRS \<or> startsWith a ''aria-'')
       then 3
       else if mutationType raw = ''childList'' then
         (if isTextOnlyNodes allNodes then 2
          else if list_ex (\<lambda>n. n \<notin> set RESOURCE_NODES \<and> n \<noteq> ''#comment'' \<and> n \<noteq> ''#text'')
                    allNodes
          then 3
          else 2)
       else 2)"

section \<open>Number rendering: \<^verbatim>\<open>String(n)\<close> and \<^verbatim>\<open>padStart\<close>\<close>

text \<open>
  \<^verbatim>\<open>String(n)\<close> of a non-negative integer is its decimal numeral without leading
  zeros; \<^verbatim>\<open>s.padStart(len, c)\<close> with a one-character filler prepends copies of
  \<open>c\<close> until the length is \<open>len\<close> and leaves a longer string alone.
\<close>

definition digit_char :: "nat \<Rightarrow> char" where
  "digit_char d = ''0123456789'' ! d"

fun String_nat :: "nat \<Rightarrow> string" where
  "String_nat n =
     (if n < 10 then [digit_char n] else String_nat (n div 10) @ [digit_char (n mod 10)])"

declare String_nat.simps [simp del]

definition padStart :: "string \<Rightarrow> nat \<Rightarrow> char \<Rightarrow> string" where
  "padStart s len c = replicate (len - length s) c @ s"

definition isDigit :: "char \<Rightarrow> bool" where
  "isDigit c = (c \<in> set ''0123456789'')"

definition endsWith :: "string \<Rightarrow> string \<Rightarrow> bool" where
  "endsWith s p = (drop (length s - length p) s = p)"

text \<open>Reading a decimal numeral back: the counter embedded in an identifier.\<close>

definition digit_val :: "char \<Rightarrow> nat" where
  "digit_val c = of_char c - 48"

definition parse_nat :: "string \<Rightarrow> nat" where
  "parse_nat ds = foldl (\<lambda>a c. 10 * a + digit_val c) 0 ds"

section \<open>types.ts: the records written to the sink\<close>

text \<open>
  TypeScript interfaces are records, unions discriminated by the \<^verbatim>\<open>type\<close> tag are
  datatypes, an optional field \<^verbatim>\<open>f?: T\<close> is a \<open>T option\<close>.  Where two interfaces
  share a field name the later one carries a short prefix (\<open>md_\<close>, \<open>dc_\<close>, \<open>req_\<close>,
  \<open>res_\<close>, \<open>fin_\<close>, \<open>ie_\<close>); the field \<^verbatim>\<open>value\<close> is \<open>val\<close>.
\<close>

datatype frameType = Main | Iframe

datatype action = click | keydown | input | submit

record SessionMetadata =
  md_sessionId :: string
  startTime :: string
  chromeUrl :: string

record BaseTracerEvent =
  eventId :: string
  ev_sessionId :: string
  frameUrl :: string
  timestamp :: string

record UserActionEvent = BaseTracerEvent +
  ua_action :: action
  tagName :: string
  elementId :: string
  className :: string
  val :: string
  key :: "string option"
  screenshotBefore :: "string option"
  screenshotAfter :: "string option"

record NavigationEvent = BaseTracerEvent +
  url :: string
  nav_frameType :: frameType

datatype TracerEvent = UserAction UserActionEvent | Navigation NavigationEvent

record DomChange =
  dc_mutationType :: string
  dc_targetPath :: string
  dc_addedNodes :: "string list option"
  dc_removedNodes :: "string list option"
  dc_attributeName :: "string option"
  dc_attributeValue :: "string option option"
  dc_oldValue :: "string option option"
  dc_characterData :: "string option"
  level :: nat

record OpMutationRecord =
  mr_timestamp :: string
  maxLevel :: nat
  changes :: "DomChange list"

record NetworkRequestEvent = BaseTracerEvent +
  req_requestId :: string
  req_url :: string
  req_method :: string
  req_headers :: "(string \<times> string) list"
  req_postData :: "string option"

record NetworkResponseEvent = BaseTracerEvent +
  res_requestId :: string
  res_url :: string
  res_status :: int
  res_mimeType :: string
  res_headers :: "(string \<times> string) list"

record NetworkFinishedEvent = BaseTracerEvent +
  fin_requestId :: string
  fin_url :: string
  fin_encodedDataLength :: int

datatype NetworkEvent =
    NetworkRequest NetworkRequestEvent
  | NetworkResponse NetworkResponseEvent
  | NetworkFinished NetworkFinishedEvent

datatype InjectedType = user_action | mutation

record InjectedEvent =
  ie_type :: InjectedType
  ie_frameType :: "frameType option"
  ie_action :: "action option"
  ie_tagName :: "string option"
  ie_elementId :: "string option"
  ie_className :: "string option"
  ie_value :: "string option"
  ie_key :: "string option"
  ie_changes :: "RawDomChange list option"

definition frameType_str :: "frameType \<Rightarrow> string" where
  "frameType_str f = (case f of Main \<Rightarrow> ''main'' | Iframe \<Rightarrow> ''iframe'')"

definition action_str :: "action \<Rightarrow> string" where
  "action_str a =
     (case a of click \<Rightarrow> ''click'' | keydown \<Rightarrow> ''keydown'' | input \<Rightarrow> ''input''
      | submit \<Rightarrow> ''submit'')"

section \<open>storage.ts: the session storage\<close>

text \<open>
  The file system is the sink.  The model keeps, in \<open>fs\<close>, the file-system calls
  the storage has issued, oldest first; a payload is the value handed to
  \<^verbatim>\<open>JSON.stringify\<close> (or the PNG bytes).  \<^verbatim>\<open>path.join\<close> is modelled on
  normalised POSIX components.
\<close>

datatype payload =
    MetadataJson SessionMetadata
  | EventJson TracerEvent
  | SnapshotJson string
  | MutationLine OpMutationRecord
  | NetworkLine NetworkEvent
  | PngData string

datatype fs_call =
    Mkdir string
  | WriteFile string payload
  | AppendFile string payload

datatype error = NotInitialized | FsFailed

datatype phase = before | after

record SessionStorage =
  sessionId :: string
  sessionDir :: string
  opCount :: nat
  eventCount :: nat
  initialized :: bool
  fs :: "fs_call list"

definition path_join :: "string \<Rightarrow> string \<Rightarrow> string" where
  "path_join a b = a @ ''/'' @ b"

text \<open>The constructor.\<close>

definition SessionStorage_new :: "string \<Rightarrow> string \<Rightarrow> SessionStorage" where
  "SessionStorage_new baseDir sid =
     \<lparr>sessionId = sid, sessionDir = path_join baseDir sid, opCount = 0, eventCount = 0,
      initialized = False, fs = []\<rparr>"

definition assertInitialized :: "SessionStorage \<Rightarrow> error + unit" where
  "assertInitialized st = (if \<not> initialized st then Inl NotInitialized else Inr ())"

definition issue :: "fs_call \<Rightarrow> SessionStorage \<Rightarrow> SessionStorage" where
  "issue c st = st\<lparr>fs := fs st @ [c]\<rparr>"

text \<open>
  \<^verbatim>\<open>initialize\<close> awaits \<^verbatim>\<open>mkdir\<close>, then \<^verbatim>\<open>writeFile\<close>, then sets the flag.  The two
  booleans are the outcomes of the two file-system calls; a failed call rejects the
  promise and the statements after it do not run.
\<close>

definition initialize ::
  "SessionStorage \<Rightarrow> SessionMetadata \<Rightarrow> bool \<Rightarrow> bool \<Rightarrow> (error + unit) \<times> SessionStorage" where
  "initialize st metadata mkdir_ok write_ok =
     (let st1 = issue (Mkdir (path_join (sessionDir st) ''ops'')) st in
      if \<not> mkdir_ok then (Inl FsFailed, st1)
      else
        let st2 = issue (WriteFile (path_join (sessionDir st) ''metadata.json'')
                           (MetadataJson metadata)) st1 in
        if \<not> write_ok then (Inl FsFailed, st2)
        else (Inr (), st2\<lparr>initialized := True\<rparr>))"

text \<open>
  \<^verbatim>\<open>/ev\d+$/.exec(eventId)?.[0] ?? eventId\<close>: the text \<open>ev\<close> followed by the
  digits that end the identifier, when the identifier ends so; the identifier
  itself otherwise.
\<close>

definition evPart :: "string \<Rightarrow> string" where
  "evPart eid =
     (let ds = rev (takeWhile isDigit (rev eid));
          rest = rev (dropWhile isDigit (rev eid))
      in if ds \<noteq> [] \<and> endsWith rest ''ev'' then ''ev'' @ ds else eid)"

text \<open>
  Every write operation is an \<^verbatim>\<open>async\<close> method: it runs \<^verbatim>\<open>assertInitialized\<close> and
  issues its file-system call synchronously, then awaits the call.  The functions
  below are that synchronous part: \<open>Inl\<close> is the error the returned promise is
  rejected with, \<open>Inr\<close> carries the storage after the call has been issued.
  Only \<^verbatim>\<open>createOpDir\<close> has a statement after its await (\<^verbatim>\<open>this.opCount++\<close>),
  which is \<open>createOpDir_done\<close>.
\<close>

definition createOpDir ::
  "SessionStorage \<Rightarrow> string \<Rightarrow> frameType \<Rightarrow> string \<Rightarrow> error + (string \<times> SessionStorage)" where
  "createOpDir st eid ft ty =
     (case assertInitialized st of
        Inl e \<Rightarrow> Inl e
      | Inr _ \<Rightarrow>
          let dirName = evPart eid @ ''-'' @ frameType_str ft @ ''-'' @ ty;
              opDir = path_join (path_join (sessionDir st) ''ops'') dirName
          in Inr (opDir, issue (Mkdir opDir) st))"

definition createOpDir_done :: "SessionStorage \<Rightarrow> SessionStorage" where
  "createOpDir_done st = st\<lparr>opCount := opCount st + 1\<rparr>"

definition writeOpEvent :: "SessionStorage \<Rightarrow> string \<Rightarrow> TracerEvent \<Rightarrow> error + SessionStorage" where
  "writeOpEvent st opDir ev =
     (case assertInitialized st of
        Inl e \<Rightarrow> Inl e
      | Inr _ \<Rightarrow> Inr (issue (WriteFile (path_join opDir ''event.json'') (EventJson ev)) st))"

definition writeOpSnapshot :: "SessionStorage \<Rightarrow> string \<Rightarrow> string \<Rightarrow> error + SessionStorage" where
  "writeOpSnapshot st opDir snapshot =
     (case assertInitialized st of
        Inl e \<Rightarrow> Inl e
      | Inr _ \<Rightarrow>
          Inr (issue (WriteFile (path_join opDir ''snapshot.json'') (SnapshotJson snapshot)) st))"

definition appendOpMutation ::
  "SessionStorage \<Rightarrow> string \<Rightarrow> OpMutationRecord \<Rightarrow> error + SessionStorage" where
  "appendOpMutation st opDir r =
     (case assertInitialized st of
        Inl e \<Rightarrow> Inl e
      | Inr _ \<Rightarrow>
          Inr (issue (AppendFile (path_join opDir ''mutations.jsonl'') (MutationLine r)) st))"

definition appendOpNetwork :: "SessionStorage \<Rightarrow> string \<Rightarrow> NetworkEvent \<Rightarrow> error + SessionStorage" where
  "appendOpNetwork st opDir ev =
     (case assertInitialized st of
        Inl e \<Rightarrow> Inl e
      | Inr _ \<Rightarrow>
          Inr (issue (AppendFile (path_join opDir ''network.jsonl'') (NetworkLine ev)) st))"

definition phase_str :: "phase \<Rightarrow> string" where
  "phase_str p = (case p of before \<Rightarrow> ''before'' | after \<Rightarrow> ''after'')"

definition writeOpScreenshot ::
  "SessionStorage \<Rightarrow> string \<Rightarrow> phase \<Rightarrow> string \<Rightarrow> error + SessionStorage" where
  "writeOpScreenshot st opDir p png =
     (case assertInitialized st of
        Inl e \<Rightarrow> Inl e
      | Inr _ \<Rightarrow> Inr (issue (WriteFile (path_join opDir (phase_str p @ ''.png'')) (PngData png)) st))"

text \<open>
  The value \<^verbatim>\<open>writeOpScreenshot\<close> resolves to: the file's path relative to the
  session directory, with backslashes turned into slashes.  \<^verbatim>\<open>path.relative\<close> is
  modelled where the tracer uses it, on an operation directory below the session
  directory; any other path is returned as it is.
\<close>

definition path_relative :: "string \<Rightarrow> string \<Rightarrow> string" where
  "path_relative from to =
     (if startsWith to (from @ ''/'') then drop (length from + 1) to else to)"

definition writeOpScreenshot_result :: "SessionStorage \<Rightarrow> string \<Rightarrow> phase \<Rightarrow> string" where
  "writeOpScreenshot_result st opDir p =
     map (\<lambda>c. if c = CHR 0x5C then CHR ''/'' else c)
       (path_relative (sessionDir st) (path_join opDir (phase_str p @ ''.png'')))"

text \<open>
  \<^verbatim>\<open>nextEventId\<close>: increment the counter, render it.  The counter is a JavaScript
  number holding an integer; the model uses a natural number, which agrees with it
  on every count below \<open>2 ^ 53\<close>.
\<close>

definition nextEventId :: "SessionStorage \<Rightarrow> string \<times> SessionStorage" where
  "nextEventId st =
     (let st' = st\<lparr>eventCount := eventCount st + 1\<rparr>
      in (sessionId st' @ ''-ev'' @ padStart (String_nat (eventCount st')) 6 CHR ''0'', st'))"

definition opTotal :: "SessionStorage \<Rightarrow> nat" where
  "opTotal st = opCount st"

text \<open>
  Tabs share the one storage: \<^verbatim>\<open>PageTracer.nextEventId\<close> of any tab is a call of
  \<^verbatim>\<open>storage.nextEventId\<close>.  \<open>allocate st tabs\<close> performs one call for each entry
  of \<open>tabs\<close> (the tab that asks), in that order, and returns the identifiers issued.
\<close>

fun allocate :: "SessionStorage \<Rightarrow> nat list \<Rightarrow> string list \<times> SessionStorage" where
  "allocate st [] = ([], st)"
| "allocate st (tab # tabs) =
     (let (i, st1) = nextEventId st; (is, st2) = allocate st1 tabs in (i # is, st2))"

definition render_id :: "string \<Rightarrow> nat \<Rightarrow> string" where
  "render_id sid n = sid @ ''-ev'' @ padStart (String_nat n) 6 CHR ''0''"

definition embedded_counter :: "string \<Rightarrow> string \<Rightarrow> nat" where
  "embedded_counter sid ident = parse_nat (drop (length sid + 3) ident)"

text \<open>
  A sequence of calls of the storage's methods.  \<open>Initialize\<close> carries the outcomes
  of its two file-system calls, \<open>CreateOpDir\<close> the outcome of its \<^verbatim>\<open>mkdir\<close>; the
  other write operations have no statement after their await.
\<close>

datatype storage_call =
    Initialize SessionMetadata bool bool
  | CreateOpDir string frameType string bool
  | WriteOpEvent string TracerEvent
  | WriteOpSnapshot string string
  | AppendOpMutation string OpMutationRecord
  | AppendOpNetwork string NetworkEvent
  | WriteOpScreenshot string phase string
  | NextEventId

fun is_write :: "storage_call \<Rightarrow> bool" where
  "is_write (Initialize m a b) = False"
| "is_write NextEventId = False"
| "is_write c = True"

fun thrown :: "error + 'a \<Rightarrow> error option" where
  "thrown (Inl e) = Some e"
| "thrown (Inr x) = None"

fun after_call :: "SessionStorage \<Rightarrow> error + SessionStorage \<Rightarrow> SessionStorage" where
  "after_call st (Inl e) = st"
| "after_call st (Inr st') = st'"

fun call :: "storage_call \<Rightarrow> SessionStorage \<Rightarrow> error option \<times> SessionStorage" where
  "call (Initialize m mkdir_ok write_ok) st =
     (thrown (fst (initialize st m mkdir_ok write_ok)), snd (initialize st m mkdir_ok write_ok))"
| "call (CreateOpDir eid ft ty ok) st =
     (case createOpDir st eid ft ty of
        Inl e \<Rightarrow> (Some e, st)
      | Inr (opDir, st') \<Rightarrow> if ok then (None, createOpDir_done st') else (Some FsFailed, st'))"
| "call (WriteOpEvent d ev) st = (thrown (writeOpEvent st d ev), after_call st (writeOpEvent st d ev))"
| "call (WriteOpSnapshot d s) st =
     (thrown (writeOpSnapshot st d s), after_call st (writeOpSnapshot st d s))"
| "call (AppendOpMutation d r) st =
     (thrown (appendOpMutation st d r), after_call st (appendOpMutation st d r))"
| "call (AppendOpNetwork d ev) st =
     (thrown (appendOpNetwork st d ev), after_call st (appendOpNetwork st d ev))"
| "call (WriteOpScreenshot d p png) st =
     (thrown (writeOpScreenshot st d p png), after_call st (writeOpScreenshot st d p png))"
| "call NextEventId st = (None, snd (nextEventId st))"

fun calls :: "storage_call list \<Rightarrow> SessionStorage \<Rightarrow> SessionStorage" where
  "calls [] st = st"
| "calls (c # cs) st = calls cs (snd (call c st))"

fun completes_initialize :: "storage_call \<Rightarrow> bool" where
  "completes_initialize (Initialize m mkdir_ok write_ok) = (mkdir_ok \<and> write_ok)"
| "completes_initialize c = False"

section \<open>config.ts\<close>

text \<open>
  The fields of \<^verbatim>\<open>TracerConfig\<close> a tab reads.  \<open>getConfig_networkBufferSize\<close> is the
  computation of \<^verbatim>\<open>networkBufferSize\<close> in \<^verbatim>\<open>getConfig\<close>; its argument is
  \<^verbatim>\<open>Number(process.env.NETWORK_BUFFER_SIZE ?? 1000)\<close>, \<open>None\<close> when that is \<^verbatim>\<open>NaN\<close>.
  Buffer sizes are whole numbers.
\<close>

record TracerConfig =
  networkBufferSize :: int
  screenshotEnabled :: bool
  fullSnapshotEnabled :: bool

definition getConfig_networkBufferSize :: "int option \<Rightarrow> int" where
  "getConfig_networkBufferSize raw =
     (case raw of None \<Rightarrow> 1000 | Some r \<Rightarrow> if r \<le> 0 then 1000 else r)"

section \<open>tracer/network-tracker.ts\<close>

text \<open>
  A JavaScript \<^verbatim>\<open>Map\<close> iterates its entries in insertion order: \<^verbatim>\<open>set\<close> on a new
  key appends the entry, \<^verbatim>\<open>set\<close> on a key that is present replaces the value where
  the entry stands, \<^verbatim>\<open>keys().next().value\<close> is the key of the first entry.  The
  map is the list of its entries in that order.
\<close>

fun Map_set :: "('k \<times> 'v) list \<Rightarrow> 'k \<Rightarrow> 'v \<Rightarrow> ('k \<times> 'v) list" where
  "Map_set [] k v = [(k, v)]"
| "Map_set ((k', v') # m) k v = (if k' = k then (k', v) # m else (k', v') # Map_set m k v)"

definition Map_delete :: "('k \<times> 'v) list \<Rightarrow> 'k \<Rightarrow> ('k \<times> 'v) list" where
  "Map_delete m k = filter (\<lambda>e. fst e \<noteq> k) m"

definition Map_get :: "('k \<times> 'v) list \<Rightarrow> 'k \<Rightarrow> 'v option" where
  "Map_get m k = map_of m k"

definition Map_size :: "('k \<times> 'v) list \<Rightarrow> nat" where
  "Map_size m = length m"

definition Map_firstKey :: "('k \<times> 'v) list \<Rightarrow> 'k option" where
  "Map_firstKey m = (case m of [] \<Rightarrow> None | e # _ \<Rightarrow> Some (fst e))"

record PendingRequest =
  pr_url :: string
  pr_frameId :: string

record NetworkTracker =
  bufferSize :: int
  pendingRequests :: "(string \<times> PendingRequest) list"

definition NetworkTracker_new :: "int \<Rightarrow> NetworkTracker" where
  "NetworkTracker_new n = \<lparr>bufferSize = n, pendingRequests = []\<rparr>"

text \<open>
  The frames of the CDP Network domain, with the fields the handlers read.  The
  field \<open>_timestamp\<close> is \<^verbatim>\<open>isoFromCdpTimestamp(event.timestamp)\<close>.
\<close>

record RequestWillBeSent =
  rq_requestId :: string
  rq_url :: string
  rq_method :: string
  rq_headers :: "(string \<times> string) list"
  rq_postData :: "string option"
  rq_frameId :: "string option"
  rq_timestamp :: string

record ResponseReceived =
  rs_requestId :: string
  rs_frameId :: "string option"
  rs_timestamp :: string
  rs_url :: string
  rs_status :: int
  rs_mimeType :: string
  rs_headers :: "(string \<times> string) list"

record LoadingFinished =
  lf_requestId :: string
  lf_timestamp :: string
  lf_encodedDataLength :: int

text \<open>
  What a handler reads from outside the program while it runs: the clock
  (\<^verbatim>\<open>new Date().toISOString()\<close>), a fresh \<^verbatim>\<open>generateEventId()\<close>, and
  \<^verbatim>\<open>page.mainFrame().url()\<close>.
\<close>

record ambient =
  amb_now :: string
  amb_eventId :: string
  amb_mainFrameUrl :: string

definition orEmpty :: "string option \<Rightarrow> string" where
  "orEmpty x = (case x of None \<Rightarrow> '''' | Some s \<Rightarrow> s)"

definition evictIfFull :: "NetworkTracker \<Rightarrow> NetworkTracker" where
  "evictIfFull nt =
     (if int (Map_size (pendingRequests nt)) \<ge> bufferSize nt then
        (case Map_firstKey (pendingRequests nt) of
           None \<Rightarrow> nt
         | Some firstKey \<Rightarrow> nt\<lparr>pendingRequests := Map_delete (pendingRequests nt) firstKey\<rparr>)
      else nt)"

text \<open>
  \<^verbatim>\<open>appendToCurrentOp\<close>: nothing when no operation directory is set (\<^verbatim>\<open>!opDir\<close> holds
  for \<^verbatim>\<open>null\<close> and for the empty string); a rejection of \<^verbatim>\<open>appendOpNetwork\<close> is
  caught and logged.
\<close>

definition appendToCurrentOp :: "string option \<Rightarrow> SessionStorage \<Rightarrow> NetworkEvent \<Rightarrow> SessionStorage" where
  "appendToCurrentOp opDir st ev =
     (case opDir of
        None \<Rightarrow> st
      | Some d \<Rightarrow>
          if d = [] then st
          else (case appendOpNetwork st d ev of Inl e \<Rightarrow> st | Inr st' \<Rightarrow> st'))"

definition onRequestWillBeSent ::
  "ambient \<Rightarrow> RequestWillBeSent \<Rightarrow> string option \<Rightarrow> NetworkTracker \<Rightarrow> SessionStorage
     \<Rightarrow> NetworkTracker \<times> SessionStorage" where
  "onRequestWillBeSent amb event opDir nt st =
     (let nt1 = evictIfFull nt;
          nt2 = nt1\<lparr>pendingRequests :=
                  Map_set (pendingRequests nt1) (rq_requestId event)
                    \<lparr>pr_url = rq_url event, pr_frameId = orEmpty (rq_frameId event)\<rparr>\<rparr>;
          tracerEvent =
            \<lparr>eventId = amb_eventId amb, ev_sessionId = sessionId st,
             frameUrl = orEmpty (rq_frameId event), timestamp = rq_timestamp event,
             req_requestId = rq_requestId event, req_url = rq_url event,
             req_method = rq_method event, req_headers = rq_headers event,
             req_postData = rq_postData event\<rparr>
      in (nt2, appendToCurrentOp opDir st (NetworkRequest tracerEvent)))"

definition onResponseReceived ::
  "ambient \<Rightarrow> ResponseReceived \<Rightarrow> string option \<Rightarrow> NetworkTracker \<Rightarrow> SessionStorage
     \<Rightarrow> NetworkTracker \<times> SessionStorage" where
  "onResponseReceived amb event opDir nt st =
     (let tracerEvent =
            \<lparr>eventId = amb_eventId amb, ev_sessionId = sessionId st,
             frameUrl = orEmpty (rs_frameId event), timestamp = rs_timestamp event,
             res_requestId = rs_requestId event, res_url = rs_url event,
             res_status = rs_status event, res_mimeType = rs_mimeType event,
             res_headers = rs_headers event\<rparr>
      in (nt, appendToCurrentOp opDir st (NetworkResponse tracerEvent)))"

definition finishedEvent ::
  "ambient \<Rightarrow> LoadingFinished \<Rightarrow> PendingRequest option \<Rightarrow> string \<Rightarrow> NetworkFinishedEvent" where
  "finishedEvent amb event pending sid =
     \<lparr>eventId = amb_eventId amb, ev_sessionId = sid,
      frameUrl = (case pending of None \<Rightarrow> '''' | Some p \<Rightarrow> pr_frameId p),
      timestamp = lf_timestamp event,
      fin_requestId = lf_requestId event,
      fin_url = (case pending of None \<Rightarrow> '''' | Some p \<Rightarrow> pr_url p),
      fin_encodedDataLength = lf_encodedDataLength event\<rparr>"

definition onLoadingFinished ::
  "ambient \<Rightarrow> LoadingFinished \<Rightarrow> string option \<Rightarrow> NetworkTracker \<Rightarrow> SessionStorage
     \<Rightarrow> NetworkTracker \<times> SessionStorage" where
  "onLoadingFinished amb event opDir nt st =
     (let pending = Map_get (pendingRequests nt) (lf_requestId event);
          nt1 = nt\<lparr>pendingRequests := Map_delete (pendingRequests nt) (lf_requestId event)\<rparr>;
          tracerEvent = finishedEvent amb event pending (sessionId st)
      in (nt1, appendToCurrentOp opDir st (NetworkFinished tracerEvent)))"

text \<open>The frames a tracker sees, and the tracker after a sequence of them.\<close>

datatype frame =
    RequestSent RequestWillBeSent
  | Response ResponseReceived
  | Finished LoadingFinished

fun on_frame ::
  "ambient \<Rightarrow> string option \<Rightarrow> frame \<Rightarrow> NetworkTracker \<times> SessionStorage
     \<Rightarrow> NetworkTracker \<times> SessionStorage" where
  "on_frame amb opDir (RequestSent e) (nt, st) = onRequestWillBeSent amb e opDir nt st"
| "on_frame amb opDir (Response e) (nt, st) = onResponseReceived amb e opDir nt st"
| "on_frame amb opDir (Finished e) (nt, st) = onLoadingFinished amb e opDir nt st"


section \<open>tracer/page-tracer.ts\<close>

record PageTracer =
  config :: TracerConfig
  networkTracker :: NetworkTracker
  cdpSession :: bool
  stopped :: bool
  currentOpDir :: "string option"
  currentMutationDir :: "string option"

text \<open>
  The constructor.  \<open>cdpSession\<close> tells whether the field holds a session
  (\<open>False\<close> is \<^verbatim>\<open>null\<close>).
\<close>

definition PageTracer_new :: "TracerConfig \<Rightarrow> PageTracer" where
  "PageTracer_new cfg =
     \<lparr>config = cfg, networkTracker = NetworkTracker_new (networkBufferSize cfg),
      cdpSession = False, stopped = False, currentOpDir = None, currentMutationDir = None\<rparr>"

subsection \<open>Handlers in flight\<close>

text \<open>
  An \<^verbatim>\<open>async\<close> handler runs until its next \<^verbatim>\<open>await\<close> of an operation that is
  really pending (a file-system call, a CDP command, a screenshot, the timer), and
  is resumed when that operation settles; between the two, other handlers of the
  tab run.  A handler in flight is a task: the await it is suspended at, and its
  local variables.  \<^verbatim>\<open>takeScreenshot\<close> and \<^verbatim>\<open>captureSnapshot\<close> each await a capture
  and then a write with no statement of the tracer between them; each is one
  suspension here, settled by a completion that says how both ended.
\<close>

record ua_locals =
  l_data :: InjectedEvent
  l_action :: action
  l_eventId :: string
  l_opDir :: string
  l_screenshotBefore :: "string option"
  l_screenshotAfter :: "string option"

datatype ua_await =
    AwaitCreateOpDir
  | AwaitScreenshotBefore
  | AwaitSleep
  | AwaitScreenshotAfter
  | AwaitCaptureSnapshot
  | AwaitWriteOpEvent

record nav_locals =
  n_url :: string
  n_frameType :: frameType
  n_eventId :: string
  n_opDir :: string

datatype nav_await =
    NavAwaitCreateOpDir
  | NavAwaitWriteOpEvent
  | NavAwaitCaptureSnapshot

datatype task =
    SaveUserAction ua_await ua_locals
  | RecordNavigation nav_await nav_locals
  | SaveMutation
  | StopDetach

record world =
  storage :: SessionStorage
  tracer :: PageTracer
  tasks :: "task list"

text \<open>
  How an awaited operation settled: \<open>io_ok\<close> tells whether it succeeded
  (\<^verbatim>\<open>mkdir\<close>, \<^verbatim>\<open>writeFile\<close>, \<^verbatim>\<open>appendFile\<close>, the capture of a screenshot or snapshot),
  \<open>io_data\<close> is what a capture returned, \<open>io_write_ok\<close> tells whether the write
  that follows a capture succeeded.
\<close>

record completion =
  io_ok :: bool
  io_data :: string
  io_write_ok :: bool

definition isClickLike :: "action \<Rightarrow> bool" where
  "isClickLike a = (a = click \<or> a = submit)"

text \<open>
  The end of \<^verbatim>\<open>takeScreenshot\<close>: \<^verbatim>\<open>undefined\<close> when the capture or the write
  failed, the relative path otherwise.
\<close>

definition takeScreenshot_settle ::
  "completion \<Rightarrow> string \<Rightarrow> phase \<Rightarrow> SessionStorage \<Rightarrow> string option \<times> SessionStorage" where
  "takeScreenshot_settle c opDir p st =
     (if \<not> io_ok c then (None, st)
      else
        (case writeOpScreenshot st opDir p (io_data c) of
           Inl e \<Rightarrow> (None, st)
         | Inr st' \<Rightarrow>
             (if io_write_ok c then Some (writeOpScreenshot_result st opDir p) else None, st')))"

definition captureSnapshot_settle :: "completion \<Rightarrow> string \<Rightarrow> SessionStorage \<Rightarrow> SessionStorage" where
  "captureSnapshot_settle c opDir st =
     (if \<not> io_ok c then st
      else (case writeOpSnapshot st opDir (io_data c) of Inl e \<Rightarrow> st | Inr st' \<Rightarrow> st'))"

subsection \<open>\<^verbatim>\<open>saveUserAction\<close>, one definition for each stretch between awaits\<close>

text \<open>
  Every stretch returns the world it leaves and the task the handler is suspended
  at, \<open>None\<close> when the handler has settled.  The stretches are listed last first.
\<close>

definition saveUserAction_write :: "ambient \<Rightarrow> ua_locals \<Rightarrow> world \<Rightarrow> world \<times> task option" where
  "saveUserAction_write amb L w =
     (let event =
            \<lparr>eventId = l_eventId L, ev_sessionId = sessionId (storage w),
             frameUrl = amb_mainFrameUrl amb, timestamp = amb_now amb,
             ua_action = l_action L,
             tagName = orEmpty (ie_tagName (l_data L)),
             elementId = orEmpty (ie_elementId (l_data L)),
             className = orEmpty (ie_className (l_data L)),
             val = orEmpty (ie_value (l_data L)),
             key = ie_key (l_data L),
             screenshotBefore = l_screenshotBefore L,
             screenshotAfter = l_screenshotAfter L\<rparr>
      in case writeOpEvent (storage w) (l_opDir L) (UserAction event) of
           Inl e \<Rightarrow> (w, None)
         | Inr st' \<Rightarrow> (w\<lparr>storage := st'\<rparr>, Some (SaveUserAction AwaitWriteOpEvent L)))"

definition saveUserAction_snapshot :: "ambient \<Rightarrow> ua_locals \<Rightarrow> world \<Rightarrow> world \<times> task option" where
  "saveUserAction_snapshot amb L w =
     (if fullSnapshotEnabled (config (tracer w)) \<and> cdpSession (tracer w)
      then (w, Some (SaveUserAction AwaitCaptureSnapshot L))
      else saveUserAction_write amb L w)"

definition saveUserAction_afterSleep :: "ambient \<Rightarrow> ua_locals \<Rightarrow> world \<Rightarrow> world \<times> task option" where
  "saveUserAction_afterSleep amb L w =
     (if screenshotEnabled (config (tracer w))
      then (w, Some (SaveUserAction AwaitScreenshotAfter L))
      else saveUserAction_snapshot amb L w)"

definition saveUserAction_setTargets :: "ambient \<Rightarrow> ua_locals \<Rightarrow> world \<Rightarrow> world \<times> task option" where
  "saveUserAction_setTargets amb L w =
     (let w1 = w\<lparr>tracer := (tracer w)\<lparr>currentMutationDir := Some (l_opDir L),
                                       currentOpDir := Some (l_opDir L)\<rparr>\<rparr>
      in if isClickLike (l_action L)
         then (w1, Some (SaveUserAction AwaitSleep L))
         else saveUserAction_afterSleep amb L w1)"

definition saveUserAction_afterCreateOpDir ::
  "ambient \<Rightarrow> ua_locals \<Rightarrow> world \<Rightarrow> world \<times> task option" where
  "saveUserAction_afterCreateOpDir amb L w =
     (if isClickLike (l_action L) \<and> screenshotEnabled (config (tracer w))
      then (w, Some (SaveUserAction AwaitScreenshotBefore L))
      else saveUserAction_setTargets amb L w)"

definition saveUserAction :: "InjectedEvent \<Rightarrow> world \<Rightarrow> world \<times> task option" where
  "saveUserAction dat w =
     (case ie_action dat of
        None \<Rightarrow> (w, None)
      | Some a \<Rightarrow>
          let eid = fst (nextEventId (storage w));
              st1 = snd (nextEventId (storage w));
              ft = (case ie_frameType dat of None \<Rightarrow> Main | Some f \<Rightarrow> f)
          in case createOpDir st1 eid ft (action_str a) of
               Inl e \<Rightarrow> (w\<lparr>storage := st1\<rparr>, None)
             | Inr (opDir, st2) \<Rightarrow>
                 (w\<lparr>storage := st2\<rparr>,
                  Some (SaveUserAction AwaitCreateOpDir
                          \<lparr>l_data = dat, l_action = a, l_eventId = eid, l_opDir = opDir,
                           l_screenshotBefore = None, l_screenshotAfter = None\<rparr>)))"

definition resume_saveUserAction ::
  "ambient \<Rightarrow> ua_await \<Rightarrow> ua_locals \<Rightarrow> completion \<Rightarrow> world \<Rightarrow> world \<times> task option" where
  "resume_saveUserAction amb pc L c w =
     (case pc of
        AwaitCreateOpDir \<Rightarrow>
          if \<not> io_ok c then (w, None)
          else saveUserAction_afterCreateOpDir amb L (w\<lparr>storage := createOpDir_done (storage w)\<rparr>)
      | AwaitScreenshotBefore \<Rightarrow>
          saveUserAction_setTargets amb
            (L\<lparr>l_screenshotBefore := fst (takeScreenshot_settle c (l_opDir L) before (storage w))\<rparr>)
            (w\<lparr>storage := snd (takeScreenshot_settle c (l_opDir L) before (storage w))\<rparr>)
      | AwaitSleep \<Rightarrow> saveUserAction_afterSleep amb L w
      | AwaitScreenshotAfter \<Rightarrow>
          saveUserAction_snapshot amb
            (L\<lparr>l_screenshotAfter := fst (takeScreenshot_settle c (l_opDir L) after (storage w))\<rparr>)
            (w\<lparr>storage := snd (takeScreenshot_settle c (l_opDir L) after (storage w))\<rparr>)
      | AwaitCaptureSnapshot \<Rightarrow>
          saveUserAction_write amb L
            (w\<lparr>storage := captureSnapshot_settle c (l_opDir L) (storage w)\<rparr>)
      | AwaitWriteOpEvent \<Rightarrow> (w, None))"

subsection \<open>\<^verbatim>\<open>saveMutation\<close>\<close>

definition toDomChange :: "RawDomChange \<Rightarrow> DomChange" where
  "toDomChange raw =
     \<lparr>dc_mutationType = mutationType raw,
      dc_targetPath = targetPath raw,
      dc_addedNodes = (if length (addedNodes raw) > 0 then Some (addedNodes raw) else None),
      dc_removedNodes = (if length (removedNodes raw) > 0 then Some (removedNodes raw) else None),
      dc_attributeName = attributeName raw,
      dc_attributeValue = (if attributeName raw \<noteq> None then Some (attributeValue raw) else None),
      dc_oldValue = (if attributeName raw \<noteq> None then Some (oldValue raw) else None),
      dc_characterData = characterData raw,
      level = computeChangeLevel raw\<rparr>"

text \<open>The loop \<^verbatim>\<open>for (const c of changes) maxLevel = Math.max(maxLevel, c.level)\<close>.\<close>

fun maxLevel_loop :: "nat \<Rightarrow> DomChange list \<Rightarrow> nat" where
  "maxLevel_loop m [] = m"
| "maxLevel_loop m (c # cs) = maxLevel_loop (max m (level c)) cs"

definition mutationRecord :: "ambient \<Rightarrow> RawDomChange list \<Rightarrow> OpMutationRecord" where
  "mutationRecord amb rawChanges =
     (let cs = map toDomChange rawChanges
      in \<lparr>mr_timestamp = amb_now amb, maxLevel = maxLevel_loop 1 cs, changes = cs\<rparr>)"

definition saveMutation :: "ambient \<Rightarrow> RawDomChange list \<Rightarrow> world \<Rightarrow> world \<times> task option" where
  "saveMutation amb rawChanges w =
     (case currentMutationDir (tracer w) of
        None \<Rightarrow> (w, None)
      | Some targetDir \<Rightarrow>
          if targetDir = [] \<or> length rawChanges = 0 then (w, None)
          else
            (case appendOpMutation (storage w) targetDir (mutationRecord amb rawChanges) of
               Inl e \<Rightarrow> (w, None)
             | Inr st' \<Rightarrow> (w\<lparr>storage := st'\<rparr>, Some SaveMutation)))"

subsection \<open>\<^verbatim>\<open>handleInjectedEvent\<close>\<close>

text \<open>The argument is the result of \<^verbatim>\<open>JSON.parse\<close>, \<open>None\<close> when it throws.\<close>

definition handleInjectedEvent ::
  "ambient \<Rightarrow> InjectedEvent option \<Rightarrow> world \<Rightarrow> world \<times> task option" where
  "handleInjectedEvent amb parsed w =
     (if stopped (tracer w) then (w, None)
      else
        (case parsed of
           None \<Rightarrow> (w, None)
         | Some dat \<Rightarrow>
             if ie_type dat = user_action \<and> ie_action dat \<noteq> None then saveUserAction dat w
             else
               (case ie_changes dat of
                  Some rawChanges \<Rightarrow>
                    if ie_type dat = mutation then saveMutation amb rawChanges w else (w, None)
                | None \<Rightarrow> (w, None))))"

subsection \<open>\<^verbatim>\<open>handleNavigation\<close> and \<^verbatim>\<open>recordNavigation\<close>\<close>

definition recordNavigation_setTargets :: "nav_locals \<Rightarrow> world \<Rightarrow> world \<times> task option" where
  "recordNavigation_setTargets L w =
     (w\<lparr>tracer := (tracer w)\<lparr>currentOpDir := Some (n_opDir L),
                               currentMutationDir := Some (n_opDir L)\<rparr>\<rparr>, None)"

definition recordNavigation_afterWrite :: "nav_locals \<Rightarrow> world \<Rightarrow> world \<times> task option" where
  "recordNavigation_afterWrite L w =
     (if n_frameType L = Main then
        (if cdpSession (tracer w) then (w, Some (RecordNavigation NavAwaitCaptureSnapshot L))
         else recordNavigation_setTargets L w)
      else (w, None))"

definition recordNavigation_afterCreateOpDir ::
  "ambient \<Rightarrow> nav_locals \<Rightarrow> world \<Rightarrow> world \<times> task option" where
  "recordNavigation_afterCreateOpDir amb L w =
     (let event =
            \<lparr>eventId = n_eventId L, ev_sessionId = sessionId (storage w),
             frameUrl = n_url L, timestamp = amb_now amb,
             url = n_url L, nav_frameType = n_frameType L\<rparr>
      in case writeOpEvent (storage w) (n_opDir L) (Navigation event) of
           Inl e \<Rightarrow> (w, None)
         | Inr st' \<Rightarrow> (w\<lparr>storage := st'\<rparr>, Some (RecordNavigation NavAwaitWriteOpEvent L)))"

definition recordNavigation :: "string \<Rightarrow> frameType \<Rightarrow> world \<Rightarrow> world \<times> task option" where
  "recordNavigation u ft w =
     (let eid = fst (nextEventId (storage w));
          st1 = snd (nextEventId (storage w))
      in case createOpDir st1 eid ft ''navigation'' of
           Inl e \<Rightarrow> (w\<lparr>storage := st1\<rparr>, None)
         | Inr (opDir, st2) \<Rightarrow>
             (w\<lparr>storage := st2\<rparr>,
              Some (RecordNavigation NavAwaitCreateOpDir
                      \<lparr>n_url = u, n_frameType = ft, n_eventId = eid, n_opDir = opDir\<rparr>)))"

definition resume_recordNavigation ::
  "ambient \<Rightarrow> nav_await \<Rightarrow> nav_locals \<Rightarrow> completion \<Rightarrow> world \<Rightarrow> world \<times> task option" where
  "resume_recordNavigation amb pc L c w =
     (case pc of
        NavAwaitCreateOpDir \<Rightarrow>
          if \<not> io_ok c then (w, None)
          else recordNavigation_afterCreateOpDir amb L
                 (w\<lparr>storage := createOpDir_done (storage w)\<rparr>)
      | NavAwaitWriteOpEvent \<Rightarrow>
          if \<not> io_ok c then (w, None) else recordNavigation_afterWrite L w
      | NavAwaitCaptureSnapshot \<Rightarrow>
          recordNavigation_setTargets L
            (w\<lparr>storage := captureSnapshot_settle c (n_opDir L) (storage w)\<rparr>))"

text \<open>
  The arguments are \<^verbatim>\<open>frame.url()\<close> and whether the frame is the page's main
  frame.
\<close>

definition handleNavigation :: "string \<Rightarrow> bool \<Rightarrow> world \<Rightarrow> world \<times> task option" where
  "handleNavigation u isMain w =
     (if stopped (tracer w) then (w, None)
      else if u = [] \<or> u = ''about:blank'' then (w, None)
      else recordNavigation u (if isMain then Main else Iframe) w)"

subsection \<open>\<^verbatim>\<open>stop\<close>\<close>

definition stop :: "world \<Rightarrow> world \<times> task option" where
  "stop w =
     (let w1 = w\<lparr>tracer := (tracer w)\<lparr>stopped := True\<rparr>\<rparr>
      in if cdpSession (tracer w1) then (w1, Some StopDetach) else (w1, None))"

definition resume_stop :: "world \<Rightarrow> world \<times> task option" where
  "resume_stop w = (w\<lparr>tracer := (tracer w)\<lparr>cdpSession := False\<rparr>\<rparr>, None)"

subsection \<open>The tab as a transition system\<close>

text \<open>
  What can happen to a tab: the page calls \<^verbatim>\<open>__wstEvent\<close>, a frame navigates, a
  network frame arrives, the owner calls \<^verbatim>\<open>stop\<close>, or the operation the \<open>k\<close>-th
  task in flight awaits settles.  A new handler's task is appended to the tasks in
  flight; a resumed task is replaced by its next suspension, or removed when the
  handler has settled.
\<close>

datatype input =
    WstEvent "InjectedEvent option"
  | FrameNavigated string bool
  | NetworkFrame frame
  | StopCalled
  | Resume nat completion

definition spawn :: "world \<times> task option \<Rightarrow> world" where
  "spawn r =
     (case snd r of
        None \<Rightarrow> fst r
      | Some t \<Rightarrow> (fst r)\<lparr>tasks := tasks (fst r) @ [t]\<rparr>)"

definition settle :: "nat \<Rightarrow> world \<times> task option \<Rightarrow> world" where
  "settle k r =
     (case snd r of
        None \<Rightarrow> (fst r)\<lparr>tasks := take k (tasks (fst r)) @ drop (Suc k) (tasks (fst r))\<rparr>
      | Some t \<Rightarrow> (fst r)\<lparr>tasks := (tasks (fst r))[k := t]\<rparr>)"

definition resume_task :: "ambient \<Rightarrow> task \<Rightarrow> completion \<Rightarrow> world \<Rightarrow> world \<times> task option" where
  "resume_task amb t c w =
     (case t of
        SaveUserAction pc L \<Rightarrow> resume_saveUserAction amb pc L c w
      | RecordNavigation pc L \<Rightarrow> resume_recordNavigation amb pc L c w
      | SaveMutation \<Rightarrow> (w, None)
      | StopDetach \<Rightarrow> resume_stop w)"

definition network_frame :: "ambient \<Rightarrow> frame \<Rightarrow> world \<Rightarrow> world" where
  "network_frame amb f w =
     (let r = on_frame amb (currentOpDir (tracer w)) f (networkTracker (tracer w), storage w)
      in w\<lparr>storage := snd r, tracer := (tracer w)\<lparr>networkTracker := fst r\<rparr>\<rparr>)"

fun step :: "ambient \<Rightarrow> input \<Rightarrow> world \<Rightarrow> world" where
  "step amb (WstEvent parsed) w = spawn (handleInjectedEvent amb parsed w)"
| "step amb (FrameNavigated u isMain) w = spawn (handleNavigation u isMain w)"
| "step amb (NetworkFrame f) w = network_frame amb f w"
| "step amb StopCalled w = spawn (stop w)"
| "step amb (Resume k c) w =
     (if k < length (tasks w) then settle k (resume_task amb (tasks w ! k) c w) else w)"

fun run :: "(ambient \<times> input) list \<Rightarrow> world \<Rightarrow> world" where
  "run [] w = w"
| "run ((amb, i) # rest) w = run rest (step amb i w)"

text \<open>
  A tab right after \<^verbatim>\<open>start\<close> on a blank page: the storage is initialised (the
  session manager awaits \<^verbatim>\<open>initialize\<close> before it attaches to a tab), the CDP
  session exists, the listeners are registered, nothing is in flight.
\<close>

definition started_tab :: "SessionStorage \<Rightarrow> TracerConfig \<Rightarrow> world" where
  "started_tab st cfg =
     \<lparr>storage = st, tracer = (PageTracer_new cfg)\<lparr>cdpSession := True\<rparr>, tasks = []\<rparr>"

section \<open>Observing the sink\<close>

text \<open>
  The mutation lines among the file-system calls issued, as pairs of file and
  record, oldest first.
\<close>

fun mutation_append :: "fs_call \<Rightarrow> (string \<times> OpMutationRecord) list" where
  "mutation_append (AppendFile p (MutationLine r)) = [(p, r)]"
| "mutation_append c = []"

definition mutation_appends :: "fs_call list \<Rightarrow> (string \<times> OpMutationRecord) list" where
  "mutation_appends cs = concat (map mutation_append cs)"

text \<open>
  What happens at a tab while a handler sleeps and no other trigger fires:
  mutation batches and network frames arrive, and the appends of earlier batches
  settle.  \<open>window ins w\<close> says that the schedule \<open>ins\<close>, run from \<open>w\<close>, consists
  of such inputs only.  \<open>batches\<close> lists the records of the batches that carry at
  least one change.
\<close>

fun settling :: "world \<Rightarrow> ambient \<times> input \<Rightarrow> bool" where
  "settling w (amb, WstEvent (Some dat)) = (ie_type dat = mutation)"
| "settling w (amb, NetworkFrame f) = True"
| "settling w (amb, Resume k c) = (k < length (tasks w) \<and> tasks w ! k = SaveMutation)"
| "settling w x = False"

fun window :: "(ambient \<times> input) list \<Rightarrow> world \<Rightarrow> bool" where
  "window [] w = True"
| "window (x # rest) w = (settling w x \<and> window rest (step (fst x) (snd x) w))"

fun batch_of :: "ambient \<times> input \<Rightarrow> OpMutationRecord list" where
  "batch_of (amb, WstEvent (Some dat)) =
     (case ie_changes dat of
        None \<Rightarrow> []
      | Some rc \<Rightarrow> if rc = [] then [] else [mutationRecord amb rc])"
| "batch_of x = []"

definition batches :: "(ambient \<times> input) list \<Rightarrow> OpMutationRecord list" where
  "batches ins = concat (map batch_of ins)"

section \<open>Invariants\<close>




section \<open>Example values\<close>

text \<open>Concrete inputs, used where the model is evaluated.\<close>

definition demo_storage :: SessionStorage where
  "demo_storage =
     snd (initialize (SessionStorage_new ''/data'' ''s1'')
            \<lparr>md_sessionId = ''s1'', startTime = ''2026-01-01T00:00:00.000Z'',
             chromeUrl = ''http://localhost:9222''\<rparr> True True)"

definition demo_config :: TracerConfig where
  "demo_config =
     \<lparr>networkBufferSize = getConfig_networkBufferSize (Some 1000),
      screenshotEnabled = False, fullSnapshotEnabled = False\<rparr>"

definition demo_amb :: ambient where
  "demo_amb =
     \<lparr>amb_now = ''2026-01-01T00:00:01.000Z'', amb_eventId = ''1767225601000-k3x9q2a'',
      amb_mainFrameUrl = ''https://example.com/''\<rparr>"

definition demo_request :: "string \<Rightarrow> RequestWillBeSent" where
  "demo_request rid =
     \<lparr>rq_requestId = rid, rq_url = ''https://example.com/'' @ rid, rq_method = ''GET'',
      rq_headers = [], rq_postData = None, rq_frameId = Some ''F1'',
      rq_timestamp = ''2026-01-01T00:00:01.000Z''\<rparr>"

definition demo_finished :: "string \<Rightarrow> LoadingFinished" where
  "demo_finished rid =
     \<lparr>lf_requestId = rid, lf_timestamp = ''2026-01-01T00:00:02.000Z'',
      lf_encodedDataLength = 512\<rparr>"

definition demo_ok :: completion where
  "demo_ok = \<lparr>io_ok = True, io_data = ''{}'', io_write_ok = True\<rparr>"

definition demo_action :: "action \<Rightarrow> InjectedEvent" where
  "demo_action a =
     \<lparr>ie_type = user_action, ie_frameType = None, ie_action = Some a,
      ie_tagName = Some ''BUTTON'', ie_elementId = Some ''go'', ie_className = Some '''',
      ie_value = Some '''', ie_key = None, ie_changes = None\<rparr>"

definition demo_change :: "string \<Rightarrow> string option \<Rightarrow> string list \<Rightarrow> RawDomChange" where
  "demo_change ty attr added =
     \<lparr>mutationType = ty, targetPath = ''/html[1]/body[1]/div[1]'',
      addedNodes = added, removedNodes = [],
      attributeName = attr, attributeValue = None, oldValue = None, characterData = None\<rparr>"

definition demo_batch :: "RawDomChange list \<Rightarrow> InjectedEvent" where
  "demo_batch cs =
     \<lparr>ie_type = mutation, ie_frameType = None, ie_action = None,
      ie_tagName = None, ie_elementId = None, ie_className = None,
      ie_value = None, ie_key = None, ie_changes = Some cs\<rparr>"

text \<open>A started tab whose current operation is the directory \<open>d\<close>.\<close>

definition demo_tab :: "string \<Rightarrow> world" where
  "demo_tab d =
     \<lparr>storage = demo_storage,
      tracer = (PageTracer_new demo_config)
                 \<lparr>cdpSession := True, currentOpDir := Some d, currentMutationDir := Some d\<rparr>,
      tasks = []\<rparr>"


text \<open>
  Schedules of a tab.  A click whose directory is created, then \<^verbatim>\<open>stop\<close> while the
  handler sleeps.
\<close>

definition demo_click_stop :: "(ambient \<times> input) list" where
  "demo_click_stop =
     [(demo_amb, WstEvent (Some (demo_action click))),
      (demo_amb, Resume 0 demo_ok),
      (demo_amb, StopCalled)]"

text \<open>
  A main-frame navigation handled to its end (directory, event, snapshot), then a
  click arrives.
\<close>

definition demo_navigate_then_click :: "(ambient \<times> input) list" where
  "demo_navigate_then_click =
     [(demo_amb, FrameNavigated ''https://example.com/'' True),
      (demo_amb, Resume 0 demo_ok),
      (demo_amb, Resume 0 demo_ok),
      (demo_amb, Resume 0 demo_ok),
      (demo_amb, WstEvent (Some (demo_action click)))]"

text \<open>An iframe navigation handled to its end (directory, event).\<close>

definition demo_iframe_navigation :: "(ambient \<times> input) list" where
  "demo_iframe_navigation =
     [(demo_amb, FrameNavigated ''https://example.com/frame'' False),
      (demo_amb, Resume 0 demo_ok),
      (demo_amb, Resume 0 demo_ok)]"

text \<open>
  A settle window: a batch arrives, a request is sent, the append of the batch
  settles, an empty batch arrives.
\<close>

definition demo_window :: "(ambient \<times> input) list" where
  "demo_window =
     [(demo_amb, WstEvent (Some (demo_batch [demo_change ''attributes'' (Some ''class'') []]))),
      (demo_amb, NetworkFrame (RequestSent (demo_request ''r1''))),
      (demo_amb, Resume 1 demo_ok),
      (demo_amb, WstEvent (Some (demo_batch [])))]"

section \<open>Properties of the classifier\<close>

lemma isNoiseNodes_iff:
  "isNoiseNodes nodes \<longleftrightarrow>
     nodes \<noteq> [] \<and> (\<forall>n \<in> set nodes. n \<in> set RESOURCE_NODES \<or> n = ''#comment'')"
  by (auto simp: isNoiseNodes_def isNoiseNode_def list_all_iff)

lemma noise_names:
  "{''SCRIPT'', ''LINK'', ''META'', ''STYLE'', ''NOSCRIPT'', ''#comment''} =
   {n. n \<in> set RESOURCE_NODES \<or> n = ''#comment''}"
  unfolding RESOURCE_NODES_def by (rule set_eqI) simp

lemma computeChangeLevel_range: "computeChangeLevel raw \<in> {1, 2, 3}"
  by (simp add: computeChangeLevel_def Let_def)

text \<open>
  Claim C4, as the code has it.  A childList change with at least one added or
  removed node, all of them drawn from SCRIPT, LINK, META, STYLE, NOSCRIPT and
  #comment, has level 1.  An attribute change whose name is class, style or
  starts with aria- has level 1 when the target path is in the head (rule 1 wins)
  and level 3 otherwise.
\<close>

theorem classify_priority:
  "(mutationType raw = ''childList'' \<and> addedNodes raw @ removedNodes raw \<noteq> [] \<and>
    set (addedNodes raw @ removedNodes raw)
      \<subseteq> {''SCRIPT'', ''LINK'', ''META'', ''STYLE'', ''NOSCRIPT'', ''#comment''}
      \<longrightarrow> computeChangeLevel raw = 1) \<and>
   (mutationType raw = ''attributes'' \<and> attributeName raw = Some a \<and>
    (a = ''class'' \<or> a = ''style'' \<or> startsWith a ''aria-'')
      \<longrightarrow> computeChangeLevel raw = (if isInHead (targetPath raw) then 1 else 3))"
proof (intro conjI impI)
  assume h: "mutationType raw = ''childList'' \<and> addedNodes raw @ removedNodes raw \<noteq> [] \<and>
    set (addedNodes raw @ removedNodes raw)
      \<subseteq> {''SCRIPT'', ''LINK'', ''META'', ''STYLE'', ''NOSCRIPT'', ''#comment''}"
  then have "\<forall>n \<in> set (addedNodes raw @ removedNodes raw).
      n \<in> set RESOURCE_NODES \<or> n = ''#comment''"
    unfolding noise_names by blast
  with h have "isNoiseNodes (addedNodes raw @ removedNodes raw)"
    unfolding isNoiseNodes_iff by blast
  with h show "computeChangeLevel raw = 1"
    by (simp add: computeChangeLevel_def Let_def)
next
  assume h: "mutationType raw = ''attributes'' \<and> attributeName raw = Some a \<and>
    (a = ''class'' \<or> a = ''style'' \<or> startsWith a ''aria-'')"
  then have "a \<in> set VISIBLE_ATTRS \<or> startsWith a ''aria-''"
    by (auto simp: VISIBLE_ATTRS_def)
  with h show "computeChangeLevel raw = (if isInHead (targetPath raw) then 1 else 3)"
    by (simp add: computeChangeLevel_def Let_def)
qed

text \<open>
  The classifier at four concrete changes: SCRIPT and #comment added under the
  body (level 1), \<open>class\<close> changed on a body element (level 3), \<open>aria-busy\<close>, which
  is not in the fixed set, changed on a body element (level 3), and \<open>style\<close>
  changed on an element inside the head (level 1).
\<close>

theorem classify_priority_witness:
  "computeChangeLevel
     \<lparr>mutationType = ''childList'', targetPath = ''/html[1]/body[1]'',
      addedNodes = [''SCRIPT''], removedNodes = [''#comment''],
      attributeName = None, attributeValue = None, oldValue = None,
      characterData = None\<rparr> = 1 \<and>
   computeChangeLevel
     \<lparr>mutationType = ''attributes'', targetPath = ''/html[1]/body[1]/div[1]'',
      addedNodes = [], removedNodes = [],
      attributeName = Some ''class'', attributeValue = Some ''x'', oldValue = None,
      characterData = None\<rparr> = 3 \<and>
   computeChangeLevel
     \<lparr>mutationType = ''attributes'', targetPath = ''/html[1]/body[1]/div[1]'',
      addedNodes = [], removedNodes = [],
      attributeName = Some ''aria-busy'', attributeValue = Some ''true'', oldValue = None,
      characterData = None\<rparr> = 3 \<and>
   computeChangeLevel
     \<lparr>mutationType = ''attributes'', targetPath = ''/html[1]/head[1]/style[1]'',
      addedNodes = [], removedNodes = [],
      attributeName = Some ''style'', attributeValue = None, oldValue = None,
      characterData = None\<rparr> = 1"
proof (intro conjI)
  show "computeChangeLevel
     \<lparr>mutationType = ''childList'', targetPath = ''/html[1]/body[1]'',
      addedNodes = [''SCRIPT''], removedNodes = [''#comment''],
      attributeName = None, attributeValue = None, oldValue = None,
      characterData = None\<rparr> = 1"
    using classify_priority
      [of "\<lparr>mutationType = ''childList'', targetPath = ''/html[1]/body[1]'',
      addedNodes = [''SCRIPT''], removedNodes = [''#comment''],
      attributeName = None, attributeValue = None, oldValue = None,
      characterData = None\<rparr>"]
    by simp
next
  show "computeChangeLevel
     \<lparr>mutationType = ''attributes'', targetPath = ''/html[1]/body[1]/div[1]'',
      addedNodes = [], removedNodes = [],
      attributeName = Some ''class'', attributeValue = Some ''x'', oldValue = None,
      characterData = None\<rparr> = 3"
    using classify_priority
      [of "\<lparr>mutationType = ''attributes'', targetPath = ''/html[1]/body[1]/div[1]'',
      addedNodes = [], removedNodes = [],
      attributeName = Some ''class'', attributeValue = Some ''x'', oldValue = None,
      characterData = None\<rparr>" "''class''"]
    by (simp add: isInHead_def startsWith_def)
next
  show "computeChangeLevel
     \<lparr>mutationType = ''attributes'', targetPath = ''/html[1]/body[1]/div[1]'',
      addedNodes = [], removedNodes = [],
      attributeName = Some ''aria-busy'', attributeValue = Some ''true'', oldValue = None,
      characterData = None\<rparr> = 3"
    using classify_priority
      [of "\<lparr>mutationType = ''attributes'', targetPath = ''/html[1]/body[1]/div[1]'',
      addedNodes = [], removedNodes = [],
      attributeName = Some ''aria-busy'', attributeValue = Some ''true'', oldValue = None,
      characterData = None\<rparr>" "''aria-busy''"]
    by (simp add: isInHead_def startsWith_def)
next
  show "computeChangeLevel
     \<lparr>mutationType = ''attributes'', targetPath = ''/html[1]/head[1]/style[1]'',
      addedNodes = [], removedNodes = [],
      attributeName = Some ''style'', attributeValue = None, oldValue = None,
      characterData = None\<rparr> = 1"
    using classify_priority
      [of "\<lparr>mutationType = ''attributes'', targetPath = ''/html[1]/head[1]/style[1]'',
      addedNodes = [], removedNodes = [],
      attributeName = Some ''style'', attributeValue = None, oldValue = None,
      characterData = None\<rparr>" "''style''"]
    by (simp add: isInHead_def startsWith_def)
qed

text \<open>
  Claim C4 as the specification words it fails where the change carries no node at
  all: every node of the (empty) lists is trivially in the resource set, the guard
  \<^verbatim>\<open>allNodes.length > 0\<close> keeps rule 1 from firing, and the fallback gives level 2.
\<close>

theorem classify_priority_counterexample:
  "mutationType
     \<lparr>mutationType = ''childList'', targetPath = ''/html[1]/body[1]'',
      addedNodes = [], removedNodes = [],
      attributeName = None, attributeValue = None, oldValue = None,
      characterData = None\<rparr> = ''childList'' \<and>
   set (addedNodes
     \<lparr>mutationType = ''childList'', targetPath = ''/html[1]/body[1]'',
      addedNodes = [], removedNodes = [],
      attributeName = None, attributeValue = None, oldValue = None,
      characterData = None\<rparr> @ removedNodes
     \<lparr>mutationType = ''childList'', targetPath = ''/html[1]/body[1]'',
      addedNodes = [], removedNodes = [],
      attributeName = None, attributeValue = None, oldValue = None,
      characterData = None\<rparr>)
     \<subseteq> {''SCRIPT'', ''LINK'', ''META'', ''STYLE'', ''NOSCRIPT'', ''#comment''} \<and>
   computeChangeLevel
     \<lparr>mutationType = ''childList'', targetPath = ''/html[1]/body[1]'',
      addedNodes = [], removedNodes = [],
      attributeName = None, attributeValue = None, oldValue = None,
      characterData = None\<rparr> = 2"
  by (simp add: computeChangeLevel_def isInHead_def startsWith_def isNoiseNodes_def
      isTextOnlyNodes_def)

text \<open>
  Claim C9.  A change whose target path is the empty string has level 1, whatever
  its mutation type, attribute name and node lists are.
\<close>

theorem empty_path_is_noise:
  "targetPath raw = [] \<Longrightarrow> computeChangeLevel raw = 1"
  by (simp add: computeChangeLevel_def isInHead_def)

text \<open>The \<open>class\<close> attribute changed on a target with empty path: level 1, not 3.\<close>

theorem empty_path_is_noise_witness:
  "computeChangeLevel
     \<lparr>mutationType = ''attributes'', targetPath = '''',
      addedNodes = [], removedNodes = [],
      attributeName = Some ''class'', attributeValue = Some ''open'', oldValue = None,
      characterData = None\<rparr> = 1"
  using empty_path_is_noise
    [of "\<lparr>mutationType = ''attributes'', targetPath = '''',
      addedNodes = [], removedNodes = [],
      attributeName = Some ''class'', attributeValue = Some ''open'', oldValue = None,
      characterData = None\<rparr>"]
  by simp

section \<open>Properties of the identifier allocator\<close>

lemma digit_val_digit_char: "d < 10 \<Longrightarrow> digit_val (digit_char d) = d"
proof -
  assume "d < 10"
  then have "d = 0 \<or> d = 1 \<or> d = 2 \<or> d = 3 \<or> d = 4 \<or> d = 5 \<or> d = 6 \<or> d = 7
    \<or> d = 8 \<or> d = 9" by arith
  then show ?thesis
    by (elim disjE) (simp_all add: digit_val_def digit_char_def)
qed

lemma parse_nat_snoc: "parse_nat (ds @ [c]) = 10 * parse_nat ds + digit_val c"
  by (simp add: parse_nat_def)

lemma parse_nat_String_nat: "parse_nat (String_nat n) = n"
proof (induction n rule: String_nat.induct)
  case (1 n)
  show ?case
  proof (cases "n < 10")
    case True
    then show ?thesis
      by (subst String_nat.simps) (simp add: parse_nat_def digit_val_digit_char)
  next
    case False
    with 1 have "parse_nat (String_nat (n div 10)) = n div 10" by simp
    with False show ?thesis
      by (subst String_nat.simps) (simp add: parse_nat_snoc digit_val_digit_char)
  qed
qed

lemma foldl_zeros: "foldl (\<lambda>a c. 10 * a + digit_val c) 0 (replicate k CHR ''0'') = 0"
  by (induction k) (simp_all add: digit_val_def)

lemma parse_nat_padStart: "parse_nat (padStart s len CHR ''0'') = parse_nat s"
  by (simp add: parse_nat_def padStart_def foldl_zeros)


lemma embedded_counter_render: "embedded_counter sid (render_id sid n) = n"
  by (simp add: embedded_counter_def render_id_def parse_nat_padStart parse_nat_String_nat)

lemma allocate_Cons_fst:
  "fst (allocate st (tab # tabs)) =
     fst (nextEventId st) # fst (allocate (snd (nextEventId st)) tabs)"
  by (simp add: split_beta)

lemma nextEventId_fst: "fst (nextEventId st) = render_id (sessionId st) (Suc (eventCount st))"
  by (simp add: nextEventId_def render_id_def Let_def)

lemma nextEventId_snd: "snd (nextEventId st) = st\<lparr>eventCount := Suc (eventCount st)\<rparr>"
  by (simp add: nextEventId_def Let_def)

lemma allocate_ids:
  "fst (allocate st tabs) =
     map (render_id (sessionId st)) [Suc (eventCount st) ..< Suc (eventCount st) + length tabs]"
proof (induction tabs arbitrary: st)
  case Nil
  then show ?case by simp
next
  case (Cons tab tabs)
  have "fst (allocate (snd (nextEventId st)) tabs) =
      map (render_id (sessionId st))
        [Suc (Suc (eventCount st)) ..< Suc (Suc (eventCount st)) + length tabs]"
    using Cons.IH [of "snd (nextEventId st)"] by (simp add: nextEventId_snd)
  moreover have "[Suc (eventCount st) ..< Suc (eventCount st) + length (tab # tabs)] =
      Suc (eventCount st) # [Suc (Suc (eventCount st)) ..< Suc (Suc (eventCount st)) + length tabs]"
    by (subst upt_conv_Cons) simp_all
  ultimately show ?case
    by (simp only: allocate_Cons_fst nextEventId_fst list.map)
qed

text \<open>
  Claim C2.  From a new storage, whatever tabs ask and in whatever order, the
  \<open>n\<close>-th call of \<^verbatim>\<open>nextEventId\<close> returns the identifier that carries the
  counter \<open>n\<close>: the counters read back from the identifiers issued are
  \<open>1, 2, \<dots>\<close> without gap, and the identifiers are pairwise distinct.
\<close>

theorem event_ids_gapless:
  "fst (allocate (SessionStorage_new baseDir sid) tabs) =
     map (render_id sid) [1 ..< Suc (length tabs)] \<and>
   map (embedded_counter sid) (fst (allocate (SessionStorage_new baseDir sid) tabs)) =
     [1 ..< Suc (length tabs)] \<and>
   distinct (fst (allocate (SessionStorage_new baseDir sid) tabs))"
proof -
  let ?ids = "fst (allocate (SessionStorage_new baseDir sid) tabs)"
  have ids: "?ids = map (render_id sid) [1 ..< Suc (length tabs)]"
    using allocate_ids [of "SessionStorage_new baseDir sid" tabs]
    by (simp add: SessionStorage_new_def)
  have ctr: "map (embedded_counter sid) ?ids = [1 ..< Suc (length tabs)]"
    unfolding ids by (simp add: embedded_counter_render o_def map_idI)
  have "distinct (map (embedded_counter sid) ?ids)"
    unfolding ctr by simp
  then have "distinct ?ids"
    by (rule distinct_map [THEN iffD1, THEN conjunct1])
  with ids ctr show ?thesis by simp
qed


section \<open>Properties of the storage's initialisation guard\<close>

lemma write_ops_not_initialized:
  assumes "\<not> initialized st"
  shows "createOpDir st eid ft ty = Inl NotInitialized"
    and "writeOpEvent st d ev = Inl NotInitialized"
    and "writeOpSnapshot st d s = Inl NotInitialized"
    and "appendOpMutation st d r = Inl NotInitialized"
    and "appendOpNetwork st d nev = Inl NotInitialized"
    and "writeOpScreenshot st d p png = Inl NotInitialized"
  using assms
  by (simp_all add: createOpDir_def writeOpEvent_def writeOpSnapshot_def appendOpMutation_def
      appendOpNetwork_def writeOpScreenshot_def assertInitialized_def)

lemma write_ops_initialized:
  assumes "initialized st"
  shows "createOpDir st eid ft ty =
           Inr (path_join (path_join (sessionDir st) ''ops'')
                  (evPart eid @ ''-'' @ frameType_str ft @ ''-'' @ ty),
                issue (Mkdir (path_join (path_join (sessionDir st) ''ops'')
                  (evPart eid @ ''-'' @ frameType_str ft @ ''-'' @ ty))) st)"
    and "writeOpEvent st d ev =
           Inr (issue (WriteFile (path_join d ''event.json'') (EventJson ev)) st)"
    and "writeOpSnapshot st d s =
           Inr (issue (WriteFile (path_join d ''snapshot.json'') (SnapshotJson s)) st)"
    and "appendOpMutation st d r =
           Inr (issue (AppendFile (path_join d ''mutations.jsonl'') (MutationLine r)) st)"
    and "appendOpNetwork st d nev =
           Inr (issue (AppendFile (path_join d ''network.jsonl'') (NetworkLine nev)) st)"
    and "writeOpScreenshot st d p png =
           Inr (issue (WriteFile (path_join d (phase_str p @ ''.png'')) (PngData png)) st)"
  using assms
  by (simp_all add: createOpDir_def writeOpEvent_def writeOpSnapshot_def appendOpMutation_def
      appendOpNetwork_def writeOpScreenshot_def assertInitialized_def Let_def)

lemma initialized_issue [simp]: "initialized (issue c st) = initialized st"
  by (simp add: issue_def)

lemma call_not_initialized:
  "\<not> initialized st \<Longrightarrow> is_write c \<Longrightarrow> fst (call c st) = Some NotInitialized"
  by (cases c) (simp_all add: write_ops_not_initialized)

lemma call_initialized:
  "initialized st \<Longrightarrow> fst (call c st) \<noteq> Some NotInitialized"
  by (cases c) (simp_all add: write_ops_initialized initialize_def Let_def)

lemma call_keeps_initialized: "initialized st \<Longrightarrow> initialized (snd (call c st))"
  by (cases c)
    (simp_all add: write_ops_initialized initialize_def Let_def createOpDir_done_def
      nextEventId_def)

lemma call_completes: "completes_initialize c \<Longrightarrow> initialized (snd (call c st))"
  by (cases c) (simp_all add: initialize_def Let_def)

lemma call_stays_uninitialized:
  "\<not> initialized st \<Longrightarrow> \<not> completes_initialize c \<Longrightarrow> \<not> initialized (snd (call c st))"
  by (cases c)
    (auto simp add: write_ops_not_initialized initialize_def Let_def nextEventId_def)

lemma calls_initialized_iff:
  "initialized (calls cs st) \<longleftrightarrow> initialized st \<or> (\<exists>c \<in> set cs. completes_initialize c)"
proof (induction cs arbitrary: st)
  case Nil
  then show ?case by simp
next
  case (Cons c cs)
  show ?case
    using Cons.IH [of "snd (call c st)"] call_keeps_initialized [of st c]
      call_completes [of c st] call_stays_uninitialized [of st c]
    by auto
qed

text \<open>
  Claim C10.  Take any history \<open>pre\<close> of calls on a storage since its
  construction, and a write operation \<open>c\<close> (\<^verbatim>\<open>createOpDir\<close>, \<^verbatim>\<open>writeOpEvent\<close>,
  \<^verbatim>\<open>writeOpSnapshot\<close>, \<^verbatim>\<open>appendOpMutation\<close>, \<^verbatim>\<open>appendOpNetwork\<close>,
  \<^verbatim>\<open>writeOpScreenshot\<close>) called next.  If no call of \<^verbatim>\<open>initialize\<close> in the history
  has completed, \<open>c\<close> throws the not-initialised error; if one has, \<open>c\<close> does not
  throw it.  (A call of \<^verbatim>\<open>initialize\<close> whose \<^verbatim>\<open>mkdir\<close> or \<^verbatim>\<open>writeFile\<close> fails leaves
  the storage as a call still in progress does: calls issued, flag not set.)
\<close>

theorem not_initialized_error:
  "(is_write c \<and> (\<forall>c' \<in> set pre. \<not> completes_initialize c')
      \<longrightarrow> fst (call c (calls pre (SessionStorage_new baseDir sid))) = Some NotInitialized) \<and>
   ((\<exists>c' \<in> set pre. completes_initialize c')
      \<longrightarrow> fst (call c (calls pre (SessionStorage_new baseDir sid))) \<noteq> Some NotInitialized)"
proof -
  have new: "\<not> initialized (SessionStorage_new baseDir sid)"
    by (simp add: SessionStorage_new_def)
  show ?thesis
    using calls_initialized_iff [of pre "SessionStorage_new baseDir sid"] new
      call_not_initialized [of "calls pre (SessionStorage_new baseDir sid)" c]
      call_initialized [of "calls pre (SessionStorage_new baseDir sid)" c]
    by blast
qed

text \<open>
  \<^verbatim>\<open>writeOpSnapshot\<close> after an \<^verbatim>\<open>initialize\<close> whose \<^verbatim>\<open>writeFile\<close> failed, and after
  one that completed.
\<close>

theorem not_initialized_error_witness:
  "fst (call (WriteOpSnapshot ''/b/s/ops/ev000001-main-click'' ''{}'')
         (calls [Initialize \<lparr>md_sessionId = ''s'', startTime = ''t'', chromeUrl = ''u''\<rparr>
                   True False, NextEventId]
            (SessionStorage_new ''/b'' ''s''))) = Some NotInitialized \<and>
   fst (call (WriteOpSnapshot ''/b/s/ops/ev000001-main-click'' ''{}'')
         (calls [Initialize \<lparr>md_sessionId = ''s'', startTime = ''t'', chromeUrl = ''u''\<rparr>
                   True True, NextEventId]
            (SessionStorage_new ''/b'' ''s''))) \<noteq> Some NotInitialized"
  using not_initialized_error
      [of "WriteOpSnapshot ''/b/s/ops/ev000001-main-click'' ''{}''"
          "[Initialize \<lparr>md_sessionId = ''s'', startTime = ''t'', chromeUrl = ''u''\<rparr>
              True False, NextEventId]" "''/b''" "''s''"]
    not_initialized_error
      [of "WriteOpSnapshot ''/b/s/ops/ev000001-main-click'' ''{}''"
          "[Initialize \<lparr>md_sessionId = ''s'', startTime = ''t'', chromeUrl = ''u''\<rparr>
             True True, NextEventId]" "''/b''" "''s''"]
  by simp


section \<open>Properties of the pending-request map\<close>




lemma Map_set_fresh: "k \<notin> set (map fst m) \<Longrightarrow> Map_set m k v = m @ [(k, v)]"
proof (induction m)
  case Nil
  then show ?case by simp
next
  case (Cons e m)
  then show ?case by (cases e) auto
qed




lemma Map_get_Map_delete: "Map_get (Map_delete m k) k = None"
  unfolding Map_get_def Map_delete_def map_of_eq_None_iff by (simp add: image_iff)






lemma onLoadingFinished_fst:
  "fst (onLoadingFinished amb e opDir nt st) =
     nt\<lparr>pendingRequests := Map_delete (pendingRequests nt) (lf_requestId e)\<rparr>"
  by (simp add: onLoadingFinished_def Let_def)




















section \<open>Properties of the load-finished handler\<close>

lemma appendToCurrentOp_Some:
  "d \<noteq> [] \<Longrightarrow> initialized st \<Longrightarrow>
   appendToCurrentOp (Some d) st ev =
     issue (AppendFile (path_join d ''network.jsonl'') (NetworkLine ev)) st"
  by (simp add: appendToCurrentOp_def write_ops_initialized)

lemma appendToCurrentOp_None: "appendToCurrentOp None st ev = st"
  by (simp add: appendToCurrentOp_def)

lemma demo_storage_eq:
  "demo_storage =
     \<lparr>sessionId = ''s1'', sessionDir = ''/data/s1'', opCount = 0, eventCount = 0,
      initialized = True,
      fs = [Mkdir ''/data/s1/ops'',
            WriteFile ''/data/s1/metadata.json''
              (MetadataJson \<lparr>md_sessionId = ''s1'', startTime = ''2026-01-01T00:00:00.000Z'',
                 chromeUrl = ''http://localhost:9222''\<rparr>)]\<rparr>"
  by (simp add: demo_storage_def initialize_def SessionStorage_new_def path_join_def issue_def
      Let_def)

lemma demo_storage_initialized: "initialized demo_storage"
  by (simp add: demo_storage_eq)

text \<open>
  Claim C6, as the code has it.  The handler has no statement that throws (a
  rejection of \<^verbatim>\<open>appendOpNetwork\<close> is caught), so it is a total function.  When the
  tab has a current operation directory and the storage is initialised, a finished
  record is appended to that directory's \<^verbatim>\<open>network.jsonl\<close>; its URL and frame are
  those of the pending entry, and the empty string when there is none.  When the
  tab has no current operation the record is discarded.  Either way the pending
  entry, if any, is removed.
\<close>

theorem finished_record:
  "(opDir = Some d \<and> d \<noteq> [] \<and> initialized st \<longrightarrow>
      snd (onLoadingFinished amb e opDir nt st) =
        issue (AppendFile (path_join d ''network.jsonl'')
                 (NetworkLine (NetworkFinished
                    \<lparr>eventId = amb_eventId amb, ev_sessionId = sessionId st,
                     frameUrl = (case Map_get (pendingRequests nt) (lf_requestId e) of
                                   None \<Rightarrow> '''' | Some p \<Rightarrow> pr_frameId p),
                     timestamp = lf_timestamp e,
                     fin_requestId = lf_requestId e,
                     fin_url = (case Map_get (pendingRequests nt) (lf_requestId e) of
                                  None \<Rightarrow> '''' | Some p \<Rightarrow> pr_url p),
                     fin_encodedDataLength = lf_encodedDataLength e\<rparr>))) st) \<and>
   (opDir = None \<longrightarrow> snd (onLoadingFinished amb e opDir nt st) = st) \<and>
   pendingRequests (fst (onLoadingFinished amb e opDir nt st)) =
     Map_delete (pendingRequests nt) (lf_requestId e) \<and>
   Map_get (pendingRequests (fst (onLoadingFinished amb e opDir nt st))) (lf_requestId e) = None"
proof (intro conjI impI)
  assume "opDir = Some d \<and> d \<noteq> [] \<and> initialized st"
  then show "snd (onLoadingFinished amb e opDir nt st) =
        issue (AppendFile (path_join d ''network.jsonl'')
                 (NetworkLine (NetworkFinished
                    \<lparr>eventId = amb_eventId amb, ev_sessionId = sessionId st,
                     frameUrl = (case Map_get (pendingRequests nt) (lf_requestId e) of
                                   None \<Rightarrow> '''' | Some p \<Rightarrow> pr_frameId p),
                     timestamp = lf_timestamp e,
                     fin_requestId = lf_requestId e,
                     fin_url = (case Map_get (pendingRequests nt) (lf_requestId e) of
                                  None \<Rightarrow> '''' | Some p \<Rightarrow> pr_url p),
                     fin_encodedDataLength = lf_encodedDataLength e\<rparr>))) st"
    by (simp add: onLoadingFinished_def Let_def appendToCurrentOp_Some finishedEvent_def)
next
  assume "opDir = None"
  then show "snd (onLoadingFinished amb e opDir nt st) = st"
    by (simp add: onLoadingFinished_def Let_def appendToCurrentOp_None)
next
  show "pendingRequests (fst (onLoadingFinished amb e opDir nt st)) =
     Map_delete (pendingRequests nt) (lf_requestId e)"
    by (simp add: onLoadingFinished_fst)
next
  show "Map_get (pendingRequests (fst (onLoadingFinished amb e opDir nt st))) (lf_requestId e) = None"
    by (simp add: onLoadingFinished_fst Map_get_Map_delete)
qed

text \<open>
  A finished frame for a request that was never observed, on a tab whose current
  operation is \<^verbatim>\<open>ev000001-main-navigation\<close>.
\<close>

theorem finished_record_witness:
  "fs (snd (onLoadingFinished demo_amb (demo_finished ''r9'')
              (Some ''/data/s1/ops/ev000001-main-navigation'')
              (NetworkTracker_new 1000) demo_storage)) =
     fs demo_storage @
     [AppendFile ''/data/s1/ops/ev000001-main-navigation/network.jsonl''
        (NetworkLine (NetworkFinished
           \<lparr>eventId = ''1767225601000-k3x9q2a'', ev_sessionId = ''s1'', frameUrl = '''',
            timestamp = ''2026-01-01T00:00:02.000Z'', fin_requestId = ''r9'', fin_url = '''',
            fin_encodedDataLength = 512\<rparr>))]"
  using finished_record
    [of "Some ''/data/s1/ops/ev000001-main-navigation''"
        "''/data/s1/ops/ev000001-main-navigation''" demo_storage demo_amb
        "demo_finished ''r9''" "NetworkTracker_new 1000"]
    demo_storage_initialized
  by (simp add: issue_def path_join_def Map_get_def NetworkTracker_new_def demo_amb_def
      demo_finished_def demo_storage_eq)

text \<open>
  Claim C6 as the specification words it fails on a tab that has no current
  operation yet (a tab started on a blank page): the finished frame of a request
  without pending entry leaves the storage as it was, no record is emitted.
\<close>

theorem finished_record_counterexample:
  "storage (step demo_amb (NetworkFrame (Finished (demo_finished ''r1'')))
              (started_tab demo_storage demo_config)) = demo_storage"
  by (simp add: network_frame_def started_tab_def PageTracer_new_def onLoadingFinished_def
      appendToCurrentOp_def Let_def)


section \<open>Properties of the mutation batch record\<close>

lemma maxLevel_loop_Max: "maxLevel_loop m cs = Max (insert m (level ` set cs))"
proof (induction cs arbitrary: m)
  case Nil
  then show ?case by simp
next
  case (Cons c cs)
  have "Max (insert (max m (level c)) (level ` set cs)) =
        Max (insert m (insert (level c) (level ` set cs)))"
    by (cases "set cs = {}") (simp_all add: max.assoc)
  with Cons show ?case by simp
qed

lemma maxLevel_loop_one:
  assumes "cs \<noteq> []" and "\<forall>c \<in> set cs. 1 \<le> level c"
  shows "maxLevel_loop 1 cs = Max (level ` set cs)"
proof -
  from assms obtain c where c: "c \<in> set cs" "1 \<le> level c"
    by (cases cs) auto
  have "Max (insert 1 (level ` set cs)) = max 1 (Max (level ` set cs))"
    using assms(1) by simp
  moreover have "1 \<le> Max (level ` set cs)"
    using c by (meson List.finite_set Max_ge finite_imageI imageI order_trans)
  ultimately show ?thesis
    by (simp add: maxLevel_loop_Max max_def)
qed

lemma computeChangeLevel_bounds: "1 \<le> computeChangeLevel raw \<and> computeChangeLevel raw \<le> 3"
  by (simp add: computeChangeLevel_def Let_def)

lemma mutationRecord_levels:
  "map level (changes (mutationRecord amb rc)) = map computeChangeLevel rc"
  by (simp add: mutationRecord_def Let_def toDomChange_def)

lemma mutationRecord_maxLevel:
  assumes "rc \<noteq> []"
  shows "maxLevel (mutationRecord amb rc) = Max (level ` set (changes (mutationRecord amb rc)))"
proof -
  have "\<forall>c \<in> set (map toDomChange rc). 1 \<le> level c"
    using computeChangeLevel_bounds by (simp add: toDomChange_def)
  with assms show ?thesis
    using maxLevel_loop_one [of "map toDomChange rc"]
    by (simp add: mutationRecord_def Let_def)
qed

lemma mutationRecord_maxLevel_bounds:
  assumes "rc \<noteq> []"
  shows "1 \<le> maxLevel (mutationRecord amb rc) \<and> maxLevel (mutationRecord amb rc) \<le> 3"
proof -
  let ?S = "level ` set (changes (mutationRecord amb rc))"
  have S: "?S = computeChangeLevel ` set rc"
    using arg_cong [OF mutationRecord_levels [of amb rc], of set] by simp
  have ne: "?S \<noteq> {}" and fin: "finite ?S"
    using assms by (simp_all add: S)
  have "Max ?S \<in> ?S"
    using Max_in [OF fin ne] .
  then obtain raw where "Max ?S = computeChangeLevel raw"
    unfolding S by blast
  with computeChangeLevel_bounds [of raw] mutationRecord_maxLevel [OF assms, of amb]
  show ?thesis by simp
qed

lemma fs_issue: "fs (issue c st) = fs st @ [c]"
  by (simp add: issue_def)

lemma issue_neq: "issue c st \<noteq> st"
proof
  assume "issue c st = st"
  then have "fs (issue c st) = fs st" by simp
  then show False by (simp add: fs_issue)
qed

lemma saveMutation_empty: "saveMutation amb [] w = (w, None)"
  by (simp add: saveMutation_def split: option.splits)

lemma saveMutation_stored:
  assumes "storage (fst (saveMutation amb rc w)) \<noteq> storage w"
  shows "rc \<noteq> [] \<and>
     (\<exists>d. currentMutationDir (tracer w) = Some d \<and>
          storage (fst (saveMutation amb rc w)) =
            issue (AppendFile (path_join d ''mutations.jsonl'')
                     (MutationLine (mutationRecord amb rc))) (storage w))"
proof (cases "currentMutationDir (tracer w)")
  case None
  with assms show ?thesis by (simp add: saveMutation_def)
next
  case (Some d)
  show ?thesis
  proof (cases "d = [] \<or> rc = [] \<or> \<not> initialized (storage w)")
    case True
    with assms Some show ?thesis
      by (auto simp: saveMutation_def write_ops_not_initialized)
  next
    case False
    with Some show ?thesis
      by (simp add: saveMutation_def write_ops_initialized)
  qed
qed

text \<open>
  Claim C7.  A batch message with zero changes leaves the tab as it was: nothing is
  appended to the sink.  Whenever \<^verbatim>\<open>saveMutation\<close> stores something, the batch has at
  least one change, what is stored is one line appended to \<^verbatim>\<open>mutations.jsonl\<close> of
  the current mutation directory, the level of every change in it is the computed
  level of the raw change, and the record's \<open>maxLevel\<close> is the maximum of these
  levels, between 1 and 3.
\<close>

theorem mutation_batch_record:
  "(ie_type dat = mutation \<and> ie_changes dat = Some [] \<longrightarrow>
      step amb (WstEvent (Some dat)) w = w) \<and>
   (storage (fst (saveMutation amb rc w)) \<noteq> storage w \<longrightarrow>
      rc \<noteq> [] \<and>
      (\<exists>d. currentMutationDir (tracer w) = Some d \<and>
           storage (fst (saveMutation amb rc w)) =
             issue (AppendFile (path_join d ''mutations.jsonl'')
                      (MutationLine (mutationRecord amb rc))) (storage w)) \<and>
      map level (changes (mutationRecord amb rc)) = map computeChangeLevel rc \<and>
      maxLevel (mutationRecord amb rc) =
        Max (level ` set (changes (mutationRecord amb rc))) \<and>
      1 \<le> maxLevel (mutationRecord amb rc) \<and> maxLevel (mutationRecord amb rc) \<le> 3)"
proof (intro conjI impI)
  assume "ie_type dat = mutation \<and> ie_changes dat = Some []"
  then show "step amb (WstEvent (Some dat)) w = w"
    by (simp add: handleInjectedEvent_def saveMutation_empty spawn_def)
next
  assume a: "storage (fst (saveMutation amb rc w)) \<noteq> storage w"
  from saveMutation_stored [OF a] show "rc \<noteq> []" by simp
  from saveMutation_stored [OF a]
  show "\<exists>d. currentMutationDir (tracer w) = Some d \<and>
           storage (fst (saveMutation amb rc w)) =
             issue (AppendFile (path_join d ''mutations.jsonl'')
                      (MutationLine (mutationRecord amb rc))) (storage w)" by simp
  show "map level (changes (mutationRecord amb rc)) = map computeChangeLevel rc"
    by (rule mutationRecord_levels)
  from saveMutation_stored [OF a]
  show "maxLevel (mutationRecord amb rc) = Max (level ` set (changes (mutationRecord amb rc)))"
    by (simp add: mutationRecord_maxLevel)
  from saveMutation_stored [OF a] mutationRecord_maxLevel_bounds [of rc amb]
  show "1 \<le> maxLevel (mutationRecord amb rc)" and "maxLevel (mutationRecord amb rc) \<le> 3"
    by simp_all
qed

text \<open>
  A tab whose current mutation directory is \<^verbatim>\<open>ev000001-main-click\<close>: the empty batch
  is discarded; a batch of a character-data change (level 2) and a \<open>class\<close> change
  (level 3) is stored with \<open>maxLevel\<close> 3.
\<close>

theorem mutation_batch_record_witness:
  "step demo_amb (WstEvent (Some (demo_batch []))) (demo_tab ''/data/s1/ops/ev000001-main-click'')
     = demo_tab ''/data/s1/ops/ev000001-main-click'' \<and>
   storage (fst (saveMutation demo_amb
                [demo_change ''characterData'' None [],
                 demo_change ''attributes'' (Some ''class'') []]
                (demo_tab ''/data/s1/ops/ev000001-main-click'')))
     \<noteq> storage (demo_tab ''/data/s1/ops/ev000001-main-click'') \<and>
   maxLevel (mutationRecord demo_amb
                [demo_change ''characterData'' None [],
                 demo_change ''attributes'' (Some ''class'') []]) = 3"
proof -
  let ?w = "demo_tab ''/data/s1/ops/ev000001-main-click''"
  let ?rc = "[demo_change ''characterData'' None [],
              demo_change ''attributes'' (Some ''class'') []]"
  note inst = mutation_batch_record [of "demo_batch []" demo_amb ?w ?rc]
  have empty: "ie_type (demo_batch []) = mutation \<and> ie_changes (demo_batch []) = Some []"
    by (simp add: demo_batch_def)
  have stored: "storage (fst (saveMutation demo_amb ?rc ?w)) \<noteq> storage ?w"
    by (simp add: saveMutation_def demo_tab_def PageTracer_new_def
        write_ops_initialized demo_storage_initialized issue_neq)
  have lv: "map computeChangeLevel ?rc = [2, 3]"
    by (simp add: computeChangeLevel_def demo_change_def isInHead_def startsWith_def
        VISIBLE_ATTRS_def)
  have 1: "step demo_amb (WstEvent (Some (demo_batch []))) ?w = ?w"
    using inst [THEN conjunct1, rule_format, OF empty] .
  note f = inst [THEN conjunct2, rule_format, OF stored]
  have f2: "map level (changes (mutationRecord demo_amb ?rc)) = map computeChangeLevel ?rc"
    using f by (elim conjE)
  have f3: "maxLevel (mutationRecord demo_amb ?rc) =
       Max (level ` set (changes (mutationRecord demo_amb ?rc)))"
    using f by (elim conjE)
  have "level ` set (changes (mutationRecord demo_amb ?rc)) =
        set (map level (changes (mutationRecord demo_amb ?rc)))"
    by (simp only: set_map)
  also have "\<dots> = set [2, 3]"
    by (simp only: f2 lv)
  finally have "Max (level ` set (changes (mutationRecord demo_amb ?rc))) = 3"
    by simp
  with f3 have 3: "maxLevel (mutationRecord demo_amb ?rc) = 3"
    by (simp only:)
  from 1 stored 3 show ?thesis by (intro conjI)
qed


section \<open>Properties of the tab's handlers\<close>

subsection \<open>What each stretch leaves untouched\<close>

lemma spawn_fields:
  "storage (spawn r) = storage (fst r)" "tracer (spawn r) = tracer (fst r)"
  by (simp_all add: spawn_def split: option.splits)

lemma settle_fields:
  "storage (settle k r) = storage (fst r)" "tracer (settle k r) = tracer (fst r)"
  by (simp_all add: settle_def split: option.splits)

lemma saveUserAction_write_tracer: "tracer (fst (saveUserAction_write amb L w)) = tracer w"
  by (simp add: saveUserAction_write_def Let_def split: sum.splits)

lemma saveUserAction_snapshot_tracer: "tracer (fst (saveUserAction_snapshot amb L w)) = tracer w"
  by (simp add: saveUserAction_snapshot_def saveUserAction_write_tracer)

lemma saveUserAction_afterSleep_tracer:
  "tracer (fst (saveUserAction_afterSleep amb L w)) = tracer w"
  by (simp add: saveUserAction_afterSleep_def saveUserAction_snapshot_tracer)

lemma saveUserAction_setTargets_tracer:
  "tracer (fst (saveUserAction_setTargets amb L w)) =
     (tracer w)\<lparr>currentMutationDir := Some (l_opDir L), currentOpDir := Some (l_opDir L)\<rparr>"
  by (simp add: saveUserAction_setTargets_def Let_def saveUserAction_afterSleep_tracer)

lemma saveUserAction_afterCreateOpDir_stopped:
  "stopped (tracer (fst (saveUserAction_afterCreateOpDir amb L w))) = stopped (tracer w)"
  by (simp add: saveUserAction_afterCreateOpDir_def saveUserAction_setTargets_tracer)

lemma saveUserAction_tracer: "tracer (fst (saveUserAction dat w)) = tracer w"
  by (simp add: saveUserAction_def Let_def split: option.splits sum.splits prod.splits)

lemma resume_saveUserAction_stopped:
  "stopped (tracer (fst (resume_saveUserAction amb pc L c w))) = stopped (tracer w)"
  by (cases pc)
    (simp_all add: resume_saveUserAction_def saveUserAction_afterCreateOpDir_stopped
      saveUserAction_setTargets_tracer saveUserAction_afterSleep_tracer
      saveUserAction_snapshot_tracer saveUserAction_write_tracer)

lemma saveMutation_tracer: "tracer (fst (saveMutation amb rc w)) = tracer w"
  by (simp add: saveMutation_def split: option.splits sum.splits)

lemma handleInjectedEvent_tracer: "tracer (fst (handleInjectedEvent amb e w)) = tracer w"
  by (simp add: handleInjectedEvent_def saveUserAction_tracer saveMutation_tracer
      split: option.splits)

lemma recordNavigation_tracer: "tracer (fst (recordNavigation u ft w)) = tracer w"
  by (simp add: recordNavigation_def Let_def split: sum.splits prod.splits)

lemma handleNavigation_tracer: "tracer (fst (handleNavigation u m w)) = tracer w"
  by (simp add: handleNavigation_def recordNavigation_tracer)

lemma resume_recordNavigation_stopped:
  "stopped (tracer (fst (resume_recordNavigation amb pc L c w))) = stopped (tracer w)"
  by (cases pc)
    (simp_all add: resume_recordNavigation_def recordNavigation_afterCreateOpDir_def
      recordNavigation_afterWrite_def recordNavigation_setTargets_def Let_def
      split: sum.splits)

lemma resume_task_stopped:
  "stopped (tracer (fst (resume_task amb t c w))) = stopped (tracer w)"
  by (cases t)
    (simp_all add: resume_task_def resume_saveUserAction_stopped
      resume_recordNavigation_stopped resume_stop_def)

lemma network_frame_stopped: "stopped (tracer (network_frame amb f w)) = stopped (tracer w)"
  by (simp add: network_frame_def Let_def)

lemma stop_fields:
  "storage (fst (stop w)) = storage w" "tracer (fst (stop w)) = (tracer w)\<lparr>stopped := True\<rparr>"
  by (simp_all add: stop_def Let_def)

lemma step_stopped: "stopped (tracer w) \<Longrightarrow> stopped (tracer (step amb i w))"
  by (cases i)
    (simp_all add: spawn_fields settle_fields handleInjectedEvent_tracer handleNavigation_tracer
      network_frame_stopped stop_fields resume_task_stopped)

lemma run_stopped: "stopped (tracer w) \<Longrightarrow> stopped (tracer (run ins w))"
proof (induction ins arbitrary: w)
  case Nil
  then show ?case by simp
next
  case (Cons x ins)
  then show ?case by (cases x) (simp add: step_stopped)
qed

lemma stopped_ignores:
  assumes "stopped (tracer w)"
  shows "step amb (WstEvent e) w = w" and "step amb (FrameNavigated u m) w = w"
  using assms by (simp_all add: handleInjectedEvent_def handleNavigation_def spawn_def)

subsection \<open>Navigation\<close>

lemma createOpDir_Inr:
  assumes "createOpDir st eid ft ty = Inr (d, st')"
  shows "initialized st" and "st' = issue (Mkdir d) st" and "d \<noteq> []"
  using assms
  by (auto simp: createOpDir_def assertInitialized_def Let_def path_join_def
      split: if_splits)

lemma initialized_createOpDir_done [simp]:
  "initialized (createOpDir_done st) = initialized st"
  by (simp add: createOpDir_done_def)

lemma tasks_after_last:
  "take (length xs) (xs @ [x]) @ drop (Suc (length xs)) (xs @ [x]) = xs"
  by simp

text \<open>
  Claim C5, as the code has it.  A navigation notice with a non-blank URL on a tab
  that is not stopped creates an operation: the next identifier is taken and the
  directory \<open>d\<close> is requested from the sink; the router's fields are untouched
  when the handler first yields.  The handler then awaits the directory, the event
  write and, for the main frame, the snapshot; none of its awaits is the settle
  timer.  When the handler has run to its end (the three
  completions below, the third one finding nothing to resume when there was no
  snapshot to await), \<open>currentOpDir\<close> and \<open>currentMutationDir\<close> are both \<open>d\<close> if the
  frame is the main frame, and both are what they were if it is an iframe.
\<close>

theorem navigation_sets_targets:
  assumes "\<not> stopped (tracer w)" and "u \<noteq> []" and "u \<noteq> ''about:blank''"
    and "createOpDir (snd (nextEventId (storage w))) (fst (nextEventId (storage w)))
           (if isMain then Main else Iframe) ''navigation'' = Inr (d, st2)"
    and "io_ok c1" and "io_ok c2"
  shows "eventCount (storage (step a1 (FrameNavigated u isMain) w)) = Suc (eventCount (storage w)) \<and>
     last (fs (storage (step a1 (FrameNavigated u isMain) w))) = Mkdir d \<and>
     tracer (step a1 (FrameNavigated u isMain) w) = tracer w \<and>
     tasks (step a1 (FrameNavigated u isMain) w) =
       tasks w @ [RecordNavigation NavAwaitCreateOpDir
                    \<lparr>n_url = u, n_frameType = (if isMain then Main else Iframe),
                     n_eventId = fst (nextEventId (storage w)), n_opDir = d\<rparr>] \<and>
     tasks (run [(a2, Resume (length (tasks w)) c1), (a3, Resume (length (tasks w)) c2),
                 (a4, Resume (length (tasks w)) c3)]
              (step a1 (FrameNavigated u isMain) w)) = tasks w \<and>
     currentOpDir (tracer
        (run [(a2, Resume (length (tasks w)) c1), (a3, Resume (length (tasks w)) c2),
              (a4, Resume (length (tasks w)) c3)]
           (step a1 (FrameNavigated u isMain) w))) =
       (if isMain then Some d else currentOpDir (tracer w)) \<and>
     currentMutationDir (tracer
        (run [(a2, Resume (length (tasks w)) c1), (a3, Resume (length (tasks w)) c2),
              (a4, Resume (length (tasks w)) c3)]
           (step a1 (FrameNavigated u isMain) w))) =
       (if isMain then Some d else currentMutationDir (tracer w))"
proof -
  let ?ft = "if isMain then Main else Iframe"
  let ?L = "\<lparr>n_url = u, n_frameType = ?ft,
            n_eventId = fst (nextEventId (storage w)), n_opDir = d\<rparr>"
  let ?k = "length (tasks w)"
  let ?ev = "Navigation \<lparr>eventId = fst (nextEventId (storage w)),
               ev_sessionId = sessionId (storage w), frameUrl = u, timestamp = amb_now a2,
               url = u, nav_frameType = ?ft\<rparr>"
  let ?st3 = "issue (WriteFile (path_join d ''event.json'') (EventJson ?ev))
                (createOpDir_done st2)"
  note cr = createOpDir_Inr [OF assms(4)]
  have sid: "sessionId st2 = sessionId (storage w)"
    by (simp add: cr(2) issue_def nextEventId_def Let_def)
  have w1: "step a1 (FrameNavigated u isMain) w =
      w\<lparr>storage := st2, tasks := tasks w @ [RecordNavigation NavAwaitCreateOpDir ?L]\<rparr>"
    using assms(1-4) by (simp add: handleNavigation_def recordNavigation_def Let_def spawn_def)
  have init2: "initialized st2"
    using cr by simp
  have w2: "step a2 (Resume ?k c1)
        (w\<lparr>storage := st2, tasks := tasks w @ [RecordNavigation NavAwaitCreateOpDir ?L]\<rparr>) =
      w\<lparr>storage := ?st3, tasks := tasks w @ [RecordNavigation NavAwaitWriteOpEvent ?L]\<rparr>"
    using assms(5) init2
    by (simp add: resume_task_def resume_recordNavigation_def
        recordNavigation_afterCreateOpDir_def Let_def write_ops_initialized settle_def sid
        createOpDir_done_def)
  have w3: "step a3 (Resume ?k c2)
        (w\<lparr>storage := ?st3, tasks := tasks w @ [RecordNavigation NavAwaitWriteOpEvent ?L]\<rparr>) =
      (if isMain then
         (if cdpSession (tracer w)
          then w\<lparr>storage := ?st3,
                  tasks := tasks w @ [RecordNavigation NavAwaitCaptureSnapshot ?L]\<rparr>
          else w\<lparr>storage := ?st3,
                  tracer := (tracer w)\<lparr>currentOpDir := Some d, currentMutationDir := Some d\<rparr>,
                  tasks := tasks w\<rparr>)
       else w\<lparr>storage := ?st3, tasks := tasks w\<rparr>)"
    using assms(6)
    by (simp add: resume_task_def resume_recordNavigation_def recordNavigation_afterWrite_def
        recordNavigation_setTargets_def settle_def)
  have w4a: "step a4 (Resume ?k c3)
        (w\<lparr>storage := ?st3, tasks := tasks w @ [RecordNavigation NavAwaitCaptureSnapshot ?L]\<rparr>) =
      w\<lparr>storage := captureSnapshot_settle c3 d ?st3,
        tracer := (tracer w)\<lparr>currentOpDir := Some d, currentMutationDir := Some d\<rparr>,
        tasks := tasks w\<rparr>"
    by (simp add: resume_task_def resume_recordNavigation_def recordNavigation_setTargets_def
        settle_def)
  have w4b: "step a4 (Resume ?k c3) (w\<lparr>storage := s, tracer := t, tasks := tasks w\<rparr>) =
      w\<lparr>storage := s, tracer := t, tasks := tasks w\<rparr>" for s t
    by simp
  have w4c: "step a4 (Resume ?k c3) (w\<lparr>storage := s, tasks := tasks w\<rparr>) =
      w\<lparr>storage := s, tasks := tasks w\<rparr>" for s
    by simp
  have fin: "run [(a2, Resume ?k c1), (a3, Resume ?k c2), (a4, Resume ?k c3)]
        (step a1 (FrameNavigated u isMain) w) =
      (if isMain then
         (if cdpSession (tracer w)
          then w\<lparr>storage := captureSnapshot_settle c3 d ?st3,
                 tracer := (tracer w)\<lparr>currentOpDir := Some d, currentMutationDir := Some d\<rparr>,
                 tasks := tasks w\<rparr>
          else w\<lparr>storage := ?st3,
                  tracer := (tracer w)\<lparr>currentOpDir := Some d, currentMutationDir := Some d\<rparr>,
                  tasks := tasks w\<rparr>)
       else w\<lparr>storage := ?st3, tasks := tasks w\<rparr>)"
    unfolding w1 run.simps w2 w3
    by (simp only: w4a w4b w4c if_distrib [of "step a4 (Resume ?k c3)"])
  show ?thesis
    unfolding fin unfolding w1
    by (simp add: cr(2) issue_def nextEventId_def Let_def)
qed

subsection \<open>User actions and the settle window\<close>

lemma mutation_appends_snoc:
  "mutation_appends (cs @ [c]) = mutation_appends cs @ mutation_append c"
  by (simp add: mutation_appends_def)

lemma appendToCurrentOp_cases:
  "appendToCurrentOp od st ev = st \<or>
   (\<exists>p. appendToCurrentOp od st ev = issue (AppendFile p (NetworkLine ev)) st)"
  by (auto simp: appendToCurrentOp_def appendOpNetwork_def assertInitialized_def
      split: option.splits)

lemma appendToCurrentOp_keeps:
  "initialized (appendToCurrentOp od st ev) = initialized st"
  "mutation_appends (fs (appendToCurrentOp od st ev)) = mutation_appends (fs st)"
  using appendToCurrentOp_cases [of od st ev]
  by (auto simp: fs_issue mutation_appends_snoc)

lemma on_frame_snd:
  "\<exists>ev. snd (on_frame amb od f (nt, st)) = appendToCurrentOp od st ev"
  by (cases f) (auto simp: onRequestWillBeSent_def onResponseReceived_def
      onLoadingFinished_def Let_def)

lemma network_frame_keeps:
  "initialized (storage (network_frame amb f w)) = initialized (storage w)"
  "mutation_appends (fs (storage (network_frame amb f w))) = mutation_appends (fs (storage w))"
  "currentMutationDir (tracer (network_frame amb f w)) = currentMutationDir (tracer w)"
  "currentOpDir (tracer (network_frame amb f w)) = currentOpDir (tracer w)"
  using on_frame_snd [of amb "currentOpDir (tracer w)" f "networkTracker (tracer w)" "storage w"]
  by (auto simp: network_frame_def Let_def appendToCurrentOp_keeps)

lemma batch_step:
  assumes "ie_type dat = mutation" and "\<not> stopped (tracer w)"
    and "currentMutationDir (tracer w) = Some d" and "d \<noteq> []" and "initialized (storage w)"
  shows "tracer (step amb (WstEvent (Some dat)) w) = tracer w"
    and "initialized (storage (step amb (WstEvent (Some dat)) w))"
    and "mutation_appends (fs (storage (step amb (WstEvent (Some dat)) w))) =
           mutation_appends (fs (storage w)) @
           map (Pair (path_join d ''mutations.jsonl'')) (batch_of (amb, WstEvent (Some dat)))"
  using assms
  by (auto simp: handleInjectedEvent_def saveMutation_def spawn_def write_ops_initialized
      fs_issue mutation_appends_snoc split: option.splits)

lemma settling_step:
  assumes "settling w x" and "\<not> stopped (tracer w)"
    and "currentMutationDir (tracer w) = Some d" and "d \<noteq> []" and "initialized (storage w)"
  shows "\<not> stopped (tracer (step (fst x) (snd x) w)) \<and>
     currentMutationDir (tracer (step (fst x) (snd x) w)) = Some d \<and>
     initialized (storage (step (fst x) (snd x) w)) \<and>
     mutation_appends (fs (storage (step (fst x) (snd x) w))) =
       mutation_appends (fs (storage w)) @ map (Pair (path_join d ''mutations.jsonl'')) (batch_of x)"
proof (cases x)
  case (Pair amb i)
  show ?thesis
  proof (cases i)
    case (WstEvent e)
    with Pair assms(1) obtain dat where e: "e = Some dat" and m: "ie_type dat = mutation"
      by (cases e) auto
    from batch_step [OF m assms(2-5), of amb] assms(2,3) show ?thesis
      by (simp add: Pair WstEvent e)
  next
    case (NetworkFrame f)
    with assms(2-5) show ?thesis
      by (simp add: Pair network_frame_keeps network_frame_stopped)
  next
    case (Resume k c)
    with Pair assms show ?thesis
      by (simp add: resume_task_def settle_def)
  qed (use Pair assms(1) in simp_all)
qed

lemma settle_window:
  assumes "window ins w" and "\<not> stopped (tracer w)"
    and "currentMutationDir (tracer w) = Some d" and "d \<noteq> []" and "initialized (storage w)"
  shows "currentMutationDir (tracer (run ins w)) = Some d \<and>
     mutation_appends (fs (storage (run ins w))) =
       mutation_appends (fs (storage w)) @ map (Pair (path_join d ''mutations.jsonl'')) (batches ins)"
  using assms
proof (induction ins arbitrary: w)
  case Nil
  then show ?case by (simp add: batches_def)
next
  case (Cons x ins)
  from Cons.prems have sx: "settling w x" and rest: "window ins (step (fst x) (snd x) w)"
    by simp_all
  note st = settling_step [OF sx Cons.prems(2-5)]
  from Cons.IH [OF rest] st Cons.prems(4)
  show ?case
    by (cases x) (simp add: batches_def)
qed


text \<open>
  Claim C1, as the code has it.  No message of the page changes the router's
  fields in the stretch that runs when it arrives.  The handler of a user action
  is suspended first at the creation of the directory and, for click and submit
  with screenshots on, at the screenshot taken before; the stretch that follows
  the last of these sets
  \<open>currentMutationDir\<close> and \<open>currentOpDir\<close> to the new operation, and for click and
  submit the handler is then suspended at the settle timer.  From there on, as long
  as only mutation batches and network frames arrive and appends settle, the
  mutation target stays the new operation and every batch with at least one change
  is appended to the new operation's \<^verbatim>\<open>mutations.jsonl\<close>.
\<close>

theorem targets_set_before_sleep:
  assumes "k < length (tasks w)" and "tasks w ! k = SaveUserAction pc L"
    and "pc = AwaitCreateOpDir \<and> io_ok c \<and>
           \<not> (isClickLike (l_action L) \<and> screenshotEnabled (config (tracer w))) \<or>
         pc = AwaitScreenshotBefore"
    and "l_opDir L \<noteq> []" and "initialized (storage w)" and "\<not> stopped (tracer w)"
    and "window ins (step amb (Resume k c) w)"
  shows "tracer (step amb0 (WstEvent e) w0) = tracer w0 \<and>
     currentMutationDir (tracer (step amb (Resume k c) w)) = Some (l_opDir L) \<and>
     currentOpDir (tracer (step amb (Resume k c) w)) = Some (l_opDir L) \<and>
     (isClickLike (l_action L) \<longrightarrow>
        (\<exists>L'. tasks (step amb (Resume k c) w) ! k = SaveUserAction AwaitSleep L' \<and>
              l_opDir L' = l_opDir L)) \<and>
     currentMutationDir (tracer (run ins (step amb (Resume k c) w))) = Some (l_opDir L) \<and>
     mutation_appends (fs (storage (run ins (step amb (Resume k c) w)))) =
       mutation_appends (fs (storage (step amb (Resume k c) w))) @
       map (Pair (path_join (l_opDir L) ''mutations.jsonl'')) (batches ins)"
proof -
  define w' where "w' = step amb (Resume k c) w"
  obtain L1 w1 where
    r: "resume_saveUserAction amb pc L c w = saveUserAction_setTargets amb L1 w1"
    and L1: "l_opDir L1 = l_opDir L" "l_action L1 = l_action L"
    and w1: "initialized (storage w1)" "stopped (tracer w1) = stopped (tracer w)"
      "tasks w1 = tasks w"
  proof (cases "pc = AwaitScreenshotBefore")
    case True
    let ?L1 = "L\<lparr>l_screenshotBefore :=
                  fst (takeScreenshot_settle c (l_opDir L) before (storage w))\<rparr>"
    let ?w1 = "w\<lparr>storage := snd (takeScreenshot_settle c (l_opDir L) before (storage w))\<rparr>"
    have "initialized (storage ?w1)"
      using assms(5)
      by (simp add: takeScreenshot_settle_def write_ops_initialized)
    with True that [of ?L1 ?w1] show ?thesis
      by (simp add: resume_saveUserAction_def)
  next
    case False
    with assms(3) have pc: "pc = AwaitCreateOpDir" and ok: "io_ok c"
      and nc: "\<not> (isClickLike (l_action L) \<and> screenshotEnabled (config (tracer w)))"
      by blast+
    have "resume_saveUserAction amb pc L c w =
        saveUserAction_setTargets amb L (w\<lparr>storage := createOpDir_done (storage w)\<rparr>)"
      using pc ok nc
      by (auto simp: resume_saveUserAction_def saveUserAction_afterCreateOpDir_def)
    with assms(5) that [of L "w\<lparr>storage := createOpDir_done (storage w)\<rparr>"] show ?thesis
      by simp
  qed
  have step_eq: "w' = settle k (saveUserAction_setTargets amb L1 w1)"
    using assms(1,2) r by (simp add: w'_def resume_task_def)
  have tr: "tracer w' =
      (tracer w1)\<lparr>currentMutationDir := Some (l_opDir L), currentOpDir := Some (l_opDir L)\<rparr>"
    by (simp add: step_eq settle_fields saveUserAction_setTargets_tracer L1)
  have init: "initialized (storage w')"
    using w1(1)
    by (simp add: step_eq settle_fields saveUserAction_setTargets_def Let_def
        saveUserAction_afterSleep_def saveUserAction_snapshot_def saveUserAction_write_def
        write_ops_initialized)
  have sleep: "isClickLike (l_action L) \<longrightarrow>
      (\<exists>L'. tasks w' ! k = SaveUserAction AwaitSleep L' \<and> l_opDir L' = l_opDir L)"
  proof
    assume "isClickLike (l_action L)"
    then have "saveUserAction_setTargets amb L1 w1 =
        (w1\<lparr>tracer := (tracer w1)\<lparr>currentMutationDir := Some (l_opDir L1),
                                       currentOpDir := Some (l_opDir L1)\<rparr>\<rparr>,
         Some (SaveUserAction AwaitSleep L1))"
      by (simp add: saveUserAction_setTargets_def Let_def L1)
    then show "\<exists>L'. tasks w' ! k = SaveUserAction AwaitSleep L' \<and> l_opDir L' = l_opDir L"
      using assms(1) w1(3) by (simp add: step_eq settle_def L1)
  qed
  have cm: "currentMutationDir (tracer w') = Some (l_opDir L)" and
       co: "currentOpDir (tracer w') = Some (l_opDir L)" and
       ns: "\<not> stopped (tracer w')"
    using assms(6) w1(2) by (simp_all add: tr)
  have arrive: "tracer (step amb0 (WstEvent e) w0) = tracer w0"
    by (simp add: spawn_fields handleInjectedEvent_tracer)
  from settle_window [OF assms(7) [folded w'_def] ns cm assms(4) init] cm co sleep arrive
  show ?thesis unfolding w'_def by simp
qed

subsection \<open>Stopping\<close>

text \<open>
  Claim C8, as the code has it.  \<^verbatim>\<open>stop\<close> sets the flag and changes nothing else of
  the router's state and nothing of the storage.  Once the flag is set it stays
  set, whatever happens next (\<open>ins\<close>), and every message of the page and every
  navigation notice that arrives is ignored: the tab is exactly as before, so no
  record is written and no identifier is taken.
\<close>

theorem stopped_tab_ignores_arrivals:
  "storage (step amb0 StopCalled w) = storage w \<and>
   tracer (step amb0 StopCalled w) = (tracer w)\<lparr>stopped := True\<rparr> \<and>
   (stopped (tracer w) \<longrightarrow>
      stopped (tracer (run ins w)) \<and>
      step amb (WstEvent e) (run ins w) = run ins w \<and>
      step amb (FrameNavigated u m) (run ins w) = run ins w)"
  using run_stopped [of w ins] stopped_ignores [of "run ins w"]
  by (simp add: spawn_fields stop_fields)


subsection \<open>Evaluating schedules\<close>

lemma String_nat_digit: "n < 10 \<Longrightarrow> String_nat n = [digit_char n]"
  by (subst String_nat.simps) simp

lemma padded_ids:
  "padStart (String_nat (Suc 0)) 6 CHR ''0'' = ''000001''"
  "padStart (String_nat 1) 6 CHR ''0'' = ''000001''"
  "padStart (String_nat 2) 6 CHR ''0'' = ''000002''"
  "padStart (String_nat (Suc (Suc 0))) 6 CHR ''0'' = ''000002''"
  by (simp_all add: padStart_def String_nat_digit digit_char_def eval_nat_numeral)

lemma evPart_ids:
  "evPart ''s1-ev000001'' = ''ev000001''"
  "evPart ''s1-ev000002'' = ''ev000002''"
  by (simp_all add: evPart_def isDigit_def endsWith_def)

lemmas eval_defs = padded_ids evPart_ids
  started_tab_def PageTracer_new_def NetworkTracker_new_def demo_config_def
  getConfig_networkBufferSize_def demo_amb_def demo_ok_def demo_action_def demo_batch_def
  demo_change_def demo_request_def demo_finished_def
  spawn_def settle_def resume_task_def
  handleInjectedEvent_def handleNavigation_def recordNavigation_def
  resume_recordNavigation_def recordNavigation_afterCreateOpDir_def
  recordNavigation_afterWrite_def recordNavigation_setTargets_def
  saveUserAction_def resume_saveUserAction_def saveUserAction_afterCreateOpDir_def
  saveUserAction_setTargets_def saveUserAction_afterSleep_def saveUserAction_snapshot_def
  saveUserAction_write_def saveMutation_def mutationRecord_def toDomChange_def
  stop_def resume_stop_def network_frame_def
  onRequestWillBeSent_def onResponseReceived_def onLoadingFinished_def finishedEvent_def
  evictIfFull_def appendToCurrentOp_def Map_size_def Map_firstKey_def Map_delete_def Map_get_def
  captureSnapshot_settle_def takeScreenshot_settle_def isClickLike_def orEmpty_def
  nextEventId_def createOpDir_def createOpDir_done_def writeOpEvent_def writeOpSnapshot_def
  appendOpMutation_def appendOpNetwork_def writeOpScreenshot_def assertInitialized_def
  issue_def path_join_def
  frameType_str_def action_str_def phase_str_def Let_def


lemma demo_iframe_run:
  "run demo_iframe_navigation (started_tab demo_storage demo_config) =
   \<lparr>storage =
    \<lparr>sessionId = ''s1'', sessionDir = ''/data/s1'', opCount = 1,
       eventCount = 1, initialized = True,
       fs = [Mkdir ''/data/s1/ops'',
             WriteFile ''/data/s1/metadata.json''
              (MetadataJson
                \<lparr>md_sessionId = ''s1'',
                   startTime = ''2026-01-01T00:00:00.000Z'',
                   chromeUrl = ''http://localhost:9222''\<rparr>),
             Mkdir ''/data/s1/ops/ev000001-iframe-navigation'',
             WriteFile
              ''/data/s1/ops/ev000001-iframe-navigation/event.json''
              (EventJson
                (Navigation
                  \<lparr>eventId = ''s1-ev000001'', ev_sessionId = ''s1'',
                     frameUrl = ''https://example.com/frame'',
                     timestamp = ''2026-01-01T00:00:01.000Z'',
                     url = ''https://example.com/frame'',
                     nav_frameType = Iframe\<rparr>))]\<rparr>,
    tracer =
      \<lparr>config =
         \<lparr>networkBufferSize = 1000, screenshotEnabled = False,
            fullSnapshotEnabled = False\<rparr>,
         networkTracker = \<lparr>bufferSize = 1000, pendingRequests = []\<rparr>,
         cdpSession = True, stopped = False, currentOpDir = None,
         currentMutationDir = None\<rparr>,
    tasks = []\<rparr>"
  by (simp add: demo_iframe_navigation_def demo_storage_eq eval_defs)

lemma demo_navigate_then_click_run:
  "run demo_navigate_then_click (started_tab demo_storage demo_config) =
   \<lparr>storage =
    \<lparr>sessionId = ''s1'', sessionDir = ''/data/s1'', opCount = 1,
       eventCount = 2, initialized = True,
       fs = [Mkdir ''/data/s1/ops'',
             WriteFile ''/data/s1/metadata.json''
              (MetadataJson
                \<lparr>md_sessionId = ''s1'',
                   startTime = ''2026-01-01T00:00:00.000Z'',
                   chromeUrl = ''http://localhost:9222''\<rparr>),
             Mkdir ''/data/s1/ops/ev000001-main-navigation'',
             WriteFile ''/data/s1/ops/ev000001-main-navigation/event.json''
              (EventJson
                (Navigation
                  \<lparr>eventId = ''s1-ev000001'', ev_sessionId = ''s1'',
                     frameUrl = ''https://example.com/'',
                     timestamp = ''2026-01-01T00:00:01.000Z'',
                     url = ''https://example.com/'',
                     nav_frameType = Main\<rparr>)),
             WriteFile
              ''/data/s1/ops/ev000001-main-navigation/snapshot.json''
              (SnapshotJson ''{}''),
             Mkdir ''/data/s1/ops/ev000002-main-click'']\<rparr>,
    tracer =
      \<lparr>config =
         \<lparr>networkBufferSize = 1000, screenshotEnabled = False,
            fullSnapshotEnabled = False\<rparr>,
         networkTracker = \<lparr>bufferSize = 1000, pendingRequests = []\<rparr>,
         cdpSession = True, stopped = False,
         currentOpDir = Some ''/data/s1/ops/ev000001-main-navigation'',
         currentMutationDir =
           Some ''/data/s1/ops/ev000001-main-navigation''\<rparr>,
    tasks =
      [SaveUserAction AwaitCreateOpDir
        \<lparr>l_data = demo_action click,
           l_action = click, l_eventId = ''s1-ev000002'',
           l_opDir = ''/data/s1/ops/ev000002-main-click'',
           l_screenshotBefore = None, l_screenshotAfter = None\<rparr>]\<rparr>"
  by (simp add: demo_navigate_then_click_def demo_storage_eq eval_defs)

lemma demo_click_arrived:
  "step demo_amb (WstEvent (Some (demo_action click))) (started_tab demo_storage demo_config) =
   \<lparr>storage =
    \<lparr>sessionId = ''s1'', sessionDir = ''/data/s1'', opCount = 0,
       eventCount = 1, initialized = True,
       fs = [Mkdir ''/data/s1/ops'',
             WriteFile ''/data/s1/metadata.json''
              (MetadataJson
                \<lparr>md_sessionId = ''s1'',
                   startTime = ''2026-01-01T00:00:00.000Z'',
                   chromeUrl = ''http://localhost:9222''\<rparr>),
             Mkdir ''/data/s1/ops/ev000001-main-click'']\<rparr>,
    tracer =
      \<lparr>config =
         \<lparr>networkBufferSize = 1000, screenshotEnabled = False,
            fullSnapshotEnabled = False\<rparr>,
         networkTracker = \<lparr>bufferSize = 1000, pendingRequests = []\<rparr>,
         cdpSession = True, stopped = False,
         currentOpDir = None, currentMutationDir = None\<rparr>,
    tasks =
      [SaveUserAction AwaitCreateOpDir
        \<lparr>l_data = demo_action click,
           l_action = click, l_eventId = ''s1-ev000001'',
           l_opDir = ''/data/s1/ops/ev000001-main-click'',
           l_screenshotBefore = None, l_screenshotAfter = None\<rparr>]\<rparr>"
  by (simp add: demo_storage_eq eval_defs)

lemma demo_click_settling:
  "step demo_amb (Resume 0 demo_ok)
     (step demo_amb (WstEvent (Some (demo_action click))) (started_tab demo_storage demo_config)) =
   \<lparr>storage =
    \<lparr>sessionId = ''s1'', sessionDir = ''/data/s1'', opCount = 1,
       eventCount = 1, initialized = True,
       fs = [Mkdir ''/data/s1/ops'',
             WriteFile ''/data/s1/metadata.json''
              (MetadataJson
                \<lparr>md_sessionId = ''s1'',
                   startTime = ''2026-01-01T00:00:00.000Z'',
                   chromeUrl = ''http://localhost:9222''\<rparr>),
             Mkdir ''/data/s1/ops/ev000001-main-click'']\<rparr>,
    tracer =
      \<lparr>config =
         \<lparr>networkBufferSize = 1000, screenshotEnabled = False,
            fullSnapshotEnabled = False\<rparr>,
         networkTracker = \<lparr>bufferSize = 1000, pendingRequests = []\<rparr>,
         cdpSession = True, stopped = False,
         currentOpDir = Some ''/data/s1/ops/ev000001-main-click'',
         currentMutationDir = Some ''/data/s1/ops/ev000001-main-click''\<rparr>,
    tasks =
      [SaveUserAction AwaitSleep
        \<lparr>l_data = demo_action click,
           l_action = click, l_eventId = ''s1-ev000001'',
           l_opDir = ''/data/s1/ops/ev000001-main-click'',
           l_screenshotBefore = None, l_screenshotAfter = None\<rparr>]\<rparr>"
  unfolding demo_click_arrived
  by (simp add: eval_defs)

lemma demo_click_stop_run:
  "run demo_click_stop (started_tab demo_storage demo_config) =
   \<lparr>storage =
    \<lparr>sessionId = ''s1'', sessionDir = ''/data/s1'', opCount = 1,
       eventCount = 1, initialized = True,
       fs = [Mkdir ''/data/s1/ops'',
             WriteFile ''/data/s1/metadata.json''
              (MetadataJson
                \<lparr>md_sessionId = ''s1'',
                   startTime = ''2026-01-01T00:00:00.000Z'',
                   chromeUrl = ''http://localhost:9222''\<rparr>),
             Mkdir ''/data/s1/ops/ev000001-main-click'']\<rparr>,
    tracer =
      \<lparr>config =
         \<lparr>networkBufferSize = 1000, screenshotEnabled = False,
            fullSnapshotEnabled = False\<rparr>,
         networkTracker = \<lparr>bufferSize = 1000, pendingRequests = []\<rparr>,
         cdpSession = True, stopped = True,
         currentOpDir = Some ''/data/s1/ops/ev000001-main-click'',
         currentMutationDir = Some ''/data/s1/ops/ev000001-main-click''\<rparr>,
    tasks =
      [SaveUserAction AwaitSleep
        \<lparr>l_data = demo_action click,
           l_action = click, l_eventId = ''s1-ev000001'',
           l_opDir = ''/data/s1/ops/ev000001-main-click'',
           l_screenshotBefore = None, l_screenshotAfter = None\<rparr>,
       StopDetach]\<rparr>"
  by (simp add: demo_click_stop_def demo_storage_eq eval_defs)

subsection \<open>The claims on concrete schedules\<close>

text \<open>
  Claim C5 as the specification words it fails for an iframe: after the handler
  of an iframe navigation has run to its end on a started tab, the operation
  \<^verbatim>\<open>ev000001-iframe-navigation\<close> exists and its event is written, nothing is in
  flight, and both fields are still unset.
\<close>

theorem navigation_sets_targets_counterexample:
  "tasks (run demo_iframe_navigation (started_tab demo_storage demo_config)) = [] \<and>
   opCount (storage (run demo_iframe_navigation (started_tab demo_storage demo_config))) = 1 \<and>
   last (fs (storage (run demo_iframe_navigation (started_tab demo_storage demo_config)))) =
     WriteFile ''/data/s1/ops/ev000001-iframe-navigation/event.json''
       (EventJson (Navigation
          \<lparr>eventId = ''s1-ev000001'', ev_sessionId = ''s1'',
           frameUrl = ''https://example.com/frame'', timestamp = ''2026-01-01T00:00:01.000Z'',
           url = ''https://example.com/frame'', nav_frameType = Iframe\<rparr>)) \<and>
   currentOpDir (tracer (run demo_iframe_navigation (started_tab demo_storage demo_config)))
     = None \<and>
   currentMutationDir (tracer (run demo_iframe_navigation (started_tab demo_storage demo_config)))
     = None"
  by (simp add: demo_iframe_run)

text \<open>
  A main-frame navigation on a started tab, handled to its end: both fields are
  the directory of the new operation.
\<close>

theorem navigation_sets_targets_witness:
  "currentOpDir (tracer
      (run [(demo_amb, Resume 0 demo_ok), (demo_amb, Resume 0 demo_ok),
            (demo_amb, Resume 0 demo_ok)]
         (step demo_amb (FrameNavigated ''https://example.com/'' True)
            (started_tab demo_storage demo_config))))
     = Some ''/data/s1/ops/ev000001-main-navigation'' \<and>
   currentMutationDir (tracer
      (run [(demo_amb, Resume 0 demo_ok), (demo_amb, Resume 0 demo_ok),
            (demo_amb, Resume 0 demo_ok)]
         (step demo_amb (FrameNavigated ''https://example.com/'' True)
            (started_tab demo_storage demo_config))))
     = Some ''/data/s1/ops/ev000001-main-navigation''"
proof -
  let ?w = "started_tab demo_storage demo_config"
  let ?d = "''/data/s1/ops/ev000001-main-navigation''"
  have h1: "\<not> stopped (tracer ?w)"
    by (simp add: started_tab_def PageTracer_new_def)
  have h2: "''https://example.com/'' \<noteq> []" and h3: "''https://example.com/'' \<noteq> ''about:blank''"
    by simp_all
  have h4: "createOpDir (snd (nextEventId (storage ?w))) (fst (nextEventId (storage ?w)))
      (if True then Main else Iframe) ''navigation'' =
      Inr (?d, issue (Mkdir ?d) (snd (nextEventId (storage ?w))))"
    by (simp add: started_tab_def demo_storage_eq nextEventId_def createOpDir_def
        assertInitialized_def path_join_def frameType_str_def Let_def padded_ids evPart_ids)
  have h5: "io_ok demo_ok"
    by (simp add: demo_ok_def)
  have len: "length (tasks ?w) = 0"
    by (simp add: started_tab_def)
  note inst = navigation_sets_targets
      [where ?a1.0 = demo_amb and ?a2.0 = demo_amb and ?a3.0 = demo_amb and ?a4.0 = demo_amb
         and ?c3.0 = demo_ok, OF h1 h2 h3 h4 h5 h5, unfolded len if_True]
  from inst show ?thesis
    by (elim conjE, intro conjI) assumption+
qed

text \<open>
  Claim C1 as the specification words it fails between the trigger and the
  creation of the directory.  After a navigation (operation 1) a click arrives:
  operation 2 has its identifier and its handler is suspended at
  \<^verbatim>\<open>createOpDir\<close>, yet the mutation target is still operation 1, and a batch that
  arrives now is appended to operation 1.
\<close>

theorem targets_set_before_sleep_counterexample:
  "tasks (run demo_navigate_then_click (started_tab demo_storage demo_config)) =
     [SaveUserAction AwaitCreateOpDir
        \<lparr>l_data = demo_action click, l_action = click, l_eventId = ''s1-ev000002'',
         l_opDir = ''/data/s1/ops/ev000002-main-click'',
         l_screenshotBefore = None, l_screenshotAfter = None\<rparr>] \<and>
   currentMutationDir (tracer (run demo_navigate_then_click (started_tab demo_storage demo_config)))
     = Some ''/data/s1/ops/ev000001-main-navigation'' \<and>
   mutation_appends (fs (storage
      (step demo_amb
         (WstEvent (Some (demo_batch [demo_change ''attributes'' (Some ''class'') []])))
         (run demo_navigate_then_click (started_tab demo_storage demo_config))))) =
     [(''/data/s1/ops/ev000001-main-navigation/mutations.jsonl'',
       mutationRecord demo_amb [demo_change ''attributes'' (Some ''class'') []])]"
  unfolding demo_navigate_then_click_run
  by (simp add: handleInjectedEvent_def saveMutation_def spawn_def demo_batch_def
      appendOpMutation_def assertInitialized_def issue_def path_join_def mutation_appends_def)

text \<open>
  A click on a started tab: once its directory exists the targets are set, and of
  what arrives during the sleep, the batch with a change is appended to the
  click's \<^verbatim>\<open>mutations.jsonl\<close>.
\<close>

theorem targets_set_before_sleep_witness:
  "currentMutationDir (tracer
      (step demo_amb (Resume 0 demo_ok)
         (step demo_amb (WstEvent (Some (demo_action click)))
            (started_tab demo_storage demo_config))))
     = Some ''/data/s1/ops/ev000001-main-click'' \<and>
   mutation_appends (fs (storage
      (run demo_window
         (step demo_amb (Resume 0 demo_ok)
            (step demo_amb (WstEvent (Some (demo_action click)))
               (started_tab demo_storage demo_config)))))) =
     [(''/data/s1/ops/ev000001-main-click/mutations.jsonl'',
       mutationRecord demo_amb [demo_change ''attributes'' (Some ''class'') []])]"
proof -
  define w where
    "w = step demo_amb (WstEvent (Some (demo_action click))) (started_tab demo_storage demo_config)"
  define L where
    "L = \<lparr>l_data = demo_action click, l_action = click, l_eventId = ''s1-ev000001'',
          l_opDir = ''/data/s1/ops/ev000001-main-click'',
          l_screenshotBefore = None, l_screenshotAfter = None\<rparr>"
  have h1: "0 < length (tasks w)"
    and h2: "tasks w ! 0 = SaveUserAction AwaitCreateOpDir L"
    and h5: "initialized (storage w)" and h6: "\<not> stopped (tracer w)"
    unfolding w_def L_def demo_click_arrived by simp_all
  have h3: "AwaitCreateOpDir = AwaitCreateOpDir \<and> io_ok demo_ok \<and>
        \<not> (isClickLike (l_action L) \<and> screenshotEnabled (config (tracer w))) \<or>
      AwaitCreateOpDir = AwaitScreenshotBefore"
    unfolding w_def L_def demo_click_arrived by (simp add: demo_ok_def)
  have h4: "l_opDir L \<noteq> []"
    by (simp add: L_def)
  have h7: "window demo_window (step demo_amb (Resume 0 demo_ok) w)"
    unfolding w_def demo_click_settling
    by (simp add: demo_window_def eval_defs)
  have b: "batches demo_window =
      [mutationRecord demo_amb [demo_change ''attributes'' (Some ''class'') []]]"
    by (simp add: batches_def demo_window_def demo_batch_def)
  have e: "mutation_appends (fs (storage (step demo_amb (Resume 0 demo_ok) w))) = []"
    unfolding w_def demo_click_settling by (simp add: mutation_appends_def)
  have d: "path_join (l_opDir L) ''mutations.jsonl'' =
      ''/data/s1/ops/ev000001-main-click/mutations.jsonl''"
    by (simp add: L_def path_join_def)
  note inst = targets_set_before_sleep
    [where amb = demo_amb and ?amb0.0 = demo_amb and e = None and ?w0.0 = w,
     OF h1 h2 h3 h4 h5 h6 h7, unfolded b e d]
  from inst have "currentMutationDir (tracer (step demo_amb (Resume 0 demo_ok) w)) =
      Some (l_opDir L)"
    by (elim conjE)
  moreover from inst have "mutation_appends (fs (storage
      (run demo_window (step demo_amb (Resume 0 demo_ok) w)))) =
     [] @ map (Pair ''/data/s1/ops/ev000001-main-click/mutations.jsonl'')
       [mutationRecord demo_amb [demo_change ''attributes'' (Some ''class'') []]]"
    by (elim conjE)
  ultimately show ?thesis
    unfolding w_def by (simp add: L_def)
qed

text \<open>
  Claim C8 as the specification words it fails for a handler in flight and for
  network frames.  \<^verbatim>\<open>stop\<close> is called while a click's handler sleeps: when the timer
  fires the handler writes the click's \<^verbatim>\<open>event.json\<close>, and a request frame that
  arrives before the CDP session is detached is appended to \<^verbatim>\<open>network.jsonl\<close>.
\<close>

theorem stopped_tab_ignores_arrivals_counterexample:
  "stopped (tracer (run demo_click_stop (started_tab demo_storage demo_config))) \<and>
   fs (storage (step demo_amb (Resume 0 demo_ok)
                  (run demo_click_stop (started_tab demo_storage demo_config)))) =
     fs (storage (run demo_click_stop (started_tab demo_storage demo_config))) @
     [WriteFile ''/data/s1/ops/ev000001-main-click/event.json''
        (EventJson (UserAction
           \<lparr>eventId = ''s1-ev000001'', ev_sessionId = ''s1'',
            frameUrl = ''https://example.com/'', timestamp = ''2026-01-01T00:00:01.000Z'',
            ua_action = click, tagName = ''BUTTON'', elementId = ''go'', className = [],
            val = [], key = None, screenshotBefore = None, screenshotAfter = None\<rparr>))] \<and>
   fs (storage (step demo_amb (NetworkFrame (RequestSent (demo_request ''r1'')))
                  (run demo_click_stop (started_tab demo_storage demo_config)))) =
     fs (storage (run demo_click_stop (started_tab demo_storage demo_config))) @
     [AppendFile ''/data/s1/ops/ev000001-main-click/network.jsonl''
        (NetworkLine (NetworkRequest
           \<lparr>eventId = ''1767225601000-k3x9q2a'', ev_sessionId = ''s1'',
            frameUrl = ''F1'', timestamp = ''2026-01-01T00:00:01.000Z'',
            req_requestId = ''r1'', req_url = ''https://example.com/r1'',
            req_method = ''GET'', req_headers = [], req_postData = None\<rparr>))]"
  unfolding demo_click_stop_run
  by (simp add: eval_defs)

text \<open>
  The same stopped tab, after the detach has completed: a key press and a
  navigation that arrive change nothing.
\<close>

theorem stopped_tab_ignores_arrivals_witness:
  "stopped (tracer (run demo_click_stop (started_tab demo_storage demo_config))) \<and>
   step demo_amb (WstEvent (Some (demo_action keydown)))
       (run [(demo_amb, Resume 1 demo_ok)]
          (run demo_click_stop (started_tab demo_storage demo_config))) =
     run [(demo_amb, Resume 1 demo_ok)]
       (run demo_click_stop (started_tab demo_storage demo_config)) \<and>
   step demo_amb (FrameNavigated ''https://example.com/next'' True)
       (run [(demo_amb, Resume 1 demo_ok)]
          (run demo_click_stop (started_tab demo_storage demo_config))) =
     run [(demo_amb, Resume 1 demo_ok)]
       (run demo_click_stop (started_tab demo_storage demo_config))"
proof -
  have st: "stopped (tracer (run demo_click_stop (started_tab demo_storage demo_config)))"
    by (simp add: demo_click_stop_run)
  note inst = stopped_tab_ignores_arrivals
    [where w = "run demo_click_stop (started_tab demo_storage demo_config)"
       and ins = "[(demo_amb, Resume 1 demo_ok)]" and amb = demo_amb
       and e = "Some (demo_action keydown)" and u = "''https://example.com/next''" and m = True,
     THEN conjunct2, THEN conjunct2, rule_format, OF st]
  from st inst show ?thesis
    by (elim conjE, intro conjI) assumption+
qed


end
